theory Spec2Isabelle
  imports Complex_Main
begin

section \<open>Numbers\<close>

text \<open>
  Python floats are idealised as real numbers, so every arithmetic step below is exact.
  \<open>round(v, n)\<close> rounds to \<open>n\<close> decimals, a tie going to the even neighbour.
\<close>

definition py_round :: "real \<Rightarrow> nat \<Rightarrow> real" where
  "py_round v n =
     (let y = v * 10 ^ n;
          f = \<lfloor>y\<rfloor>;
          d = y - of_int f;
          r = (if d < 1 / 2 then f
               else if 1 / 2 < d then f + 1
               else if even f then f else f + 1)
      in of_int r / 10 ^ n)"

datatype py_error = ValueError string | IndexError | TypeError

section \<open>waste\_management.py\<close>

record WasteStream =
  name :: string
  pci_value :: real
  humidity :: real
  chloride_content :: real
  sulfur_content :: real
  density :: real
  cost :: real
  available_mass :: real

text \<open>\<open>WasteStream.__post_init__\<close>: the two checks the dataclass runs on construction.\<close>

definition post_init :: "WasteStream \<Rightarrow> py_error + WasteStream" where
  "post_init w =
     (if pci_value w < 0 then Inl (ValueError ''PCI value cannot be negative'')
      else if available_mass w < 0 then Inl (ValueError ''Available mass cannot be negative'')
      else Inr w)"

record KilnOperationalParameters =
  target_pci :: real
  max_sulfur :: real
  max_chloride :: real
  target_tsr :: real
  feed_rate_capacity :: real

section \<open>optimization\_engine.py: the free-allocation formulation\<close>

text \<open>The arguments handed to \<open>linprog\<close> and the fields of the result it hands back.\<close>

record linprog_problem =
  lp_c :: "real list"
  lp_A_ub :: "real list list"
  lp_b_ub :: "real list"
  lp_bounds :: "(real \<times> real) list"

record linprog_result =
  res_x :: "real list"
  res_fun :: real
  res_success :: bool
  res_status :: nat
  res_message :: string

definition build_lp :: "WasteStream list \<Rightarrow> KilnOperationalParameters \<Rightarrow> linprog_problem" where
  "build_lp waste_streams params =
     \<lparr> lp_c = map (\<lambda>w. cost w - 100000) waste_streams,
       lp_A_ub =
         [ replicate (length waste_streams) 1,
           map (\<lambda>w. sulfur_content w - max_sulfur params) waste_streams,
           map (\<lambda>w. chloride_content w - max_chloride params) waste_streams,
           map (\<lambda>w. - (pci_value w - 0.95 * target_pci params)) waste_streams,
           map (\<lambda>w. pci_value w - 1.05 * target_pci params) waste_streams ],
       lp_b_ub = [feed_rate_capacity params, 0, 0, 0, 0],
       lp_bounds = map (\<lambda>w. (0, available_mass w)) waste_streams \<rparr>"

text \<open>
  The accumulators of the result loop. \<open>result_mix\<close> is the dictionary keyed by the
  stream name; a later stream of the same name overwrites the entry.
\<close>

record totals =
  result_mix :: "string \<rightharpoonup> real"
  total_mass :: real
  total_heat :: real
  total_sulfur_mass :: real
  total_chloride_mass :: real
  total_cost :: real

definition totals0 :: totals where
  "totals0 =
     \<lparr> result_mix = Map.empty, total_mass = 0, total_heat = 0, total_sulfur_mass = 0,
       total_chloride_mass = 0, total_cost = 0 \<rparr>"

definition add_stream :: "WasteStream \<Rightarrow> real \<Rightarrow> totals \<Rightarrow> totals" where
  "add_stream w val t =
     \<lparr> result_mix = (result_mix t)(name w \<mapsto> py_round val 2),
       total_mass = total_mass t + val,
       total_heat = total_heat t + val * pci_value w,
       total_sulfur_mass = total_sulfur_mass t + val * sulfur_content w,
       total_chloride_mass = total_chloride_mass t + val * chloride_content w,
       total_cost = total_cost t + val * cost w \<rparr>"

text \<open>
  \<open>for i, val in enumerate(res.x)\<close>: the stream \<open>waste_streams[i]\<close> is read only when
  \<open>val > 1e-3\<close>, and reading past the end of the list raises \<open>IndexError\<close>.
\<close>

fun accumulate :: "WasteStream list \<Rightarrow> real list \<Rightarrow> totals \<Rightarrow> py_error + totals" where
  "accumulate ws [] t = Inr t"
| "accumulate [] (val # vals) t =
     (if val > 1 / 1000 then Inl IndexError else accumulate [] vals t)"
| "accumulate (w # ws) (val # vals) t =
     (if val > 1 / 1000 then accumulate ws vals (add_stream w val t)
      else accumulate ws vals t)"

text \<open>The pairs of the loop that pass the filter, in order.\<close>

definition kept :: "WasteStream list \<Rightarrow> real list \<Rightarrow> (WasteStream \<times> real) list" where
  "kept ws xs = filter (\<lambda>p. snd p > 1 / 1000) (zip ws xs)"

text \<open>
  The mass and the weighted sums of a property over those pairs, and the weighted average
  with the convention of the code for an empty blend.
\<close>

definition kept_mass :: "WasteStream list \<Rightarrow> real list \<Rightarrow> real" where
  "kept_mass ws xs = sum_list (map snd (kept ws xs))"

definition kept_sum :: "(WasteStream \<Rightarrow> real) \<Rightarrow> WasteStream list \<Rightarrow> real list \<Rightarrow> real" where
  "kept_sum P ws xs = sum_list (map (\<lambda>p. snd p * P (fst p)) (kept ws xs))"

definition kept_average :: "(WasteStream \<Rightarrow> real) \<Rightarrow> WasteStream list \<Rightarrow> real list \<Rightarrow> real" where
  "kept_average P ws xs = (if kept_mass ws xs > 0 then kept_sum P ws xs / kept_mass ws xs else 0)"


text \<open>
  The dictionary the function returns: one shape on success, one on failure. The key
  \<open>status\<close> is the constructor, read by \<open>report_status\<close>; the success dictionary also
  carries the fixed text \<open>tsr_projection\<close>, which depends on nothing and is left out.
\<close>

datatype mix_report =
    Target_Achieved
      (mix_ton_per_hour: "string \<rightharpoonup> real")
      (total_feed_rate: real)
      (avg_pci: real)
      (avg_sulfur_percent: real)
      (avg_chloride_percent: real)
      (total_cost_per_hour: real)
  | Optimization_Failed (reason: string)

fun report_status :: "mix_report \<Rightarrow> string" where
  "report_status (Target_Achieved m f p s c k) = ''Target Achieved''"
| "report_status (Optimization_Failed r) = ''Optimization Failed''"

definition report_of_totals :: "totals \<Rightarrow> mix_report" where
  "report_of_totals t =
     (let avg_pci = (if total_mass t > 0 then total_heat t / total_mass t else 0);
          avg_sulfur = (if total_mass t > 0 then total_sulfur_mass t / total_mass t else 0);
          avg_chloride = (if total_mass t > 0 then total_chloride_mass t / total_mass t else 0)
      in Target_Achieved (result_mix t) (py_round (total_mass t) 2) (py_round avg_pci 2)
           (py_round avg_sulfur 4) (py_round avg_chloride 4) (py_round (total_cost t) 2))"

text \<open>
  The solver \<open>linprog\<close> is a library outside the repository and is a parameter here: any
  function from the problem to a result record. One part of the library is fixed: before
  it solves anything it checks its arguments, and it rejects an empty cost vector with
  \<open>ValueError\<close>. The code builds one cost per stream, so this is the empty stream list.
\<close>

definition invalid_c :: py_error where
  "invalid_c = ValueError (''Invalid input for linprog: c must be a 1-D array and must '' @
     ''not have more than one non-singleton dimension'')"

definition linprog_call ::
  "(linprog_problem \<Rightarrow> linprog_result) \<Rightarrow> linprog_problem \<Rightarrow> py_error + linprog_result" where
  "linprog_call linprog lp =
     (if lp_c lp = []
      then Inl invalid_c
      else Inr (linprog lp))"

text \<open>
  \<open>calculate_optimal_mix\<close>. It has no \<open>try\<close>: an exception of the solver call leaves
  the function as it is.
\<close>

definition calculate_optimal_mix ::
  "(linprog_problem \<Rightarrow> linprog_result) \<Rightarrow> WasteStream list \<Rightarrow> KilnOperationalParameters
     \<Rightarrow> py_error + mix_report" where
  "calculate_optimal_mix linprog waste_streams params =
     (case linprog_call linprog (build_lp waste_streams params) of
        Inl e \<Rightarrow> Inl e
      | Inr res \<Rightarrow>
          if res_success res then
            (case accumulate waste_streams (res_x res) totals0 of
               Inl e \<Rightarrow> Inl e
             | Inr t \<Rightarrow> Inr (report_of_totals t))
          else Inr (Optimization_Failed (res_message res)))"

text \<open>
  The caller in \<open>main.py\<close>: \<open>[WasteStream(**s) for s in WAW_STREAMS]\<close> constructs the
  streams one by one, the first failing construction ending the request, and only then
  calls \<open>calculate_optimal_mix\<close>. The stream table and the kiln parameters are module
  globals there and parameters here; the handler catches the exception and returns its
  text in a dictionary, which is the \<open>Inl\<close> branch here.
\<close>

fun construct_streams :: "WasteStream list \<Rightarrow> py_error + WasteStream list" where
  "construct_streams [] = Inr []"
| "construct_streams (s # ss) =
     (case post_init s of
        Inl e \<Rightarrow> Inl e
      | Inr w \<Rightarrow> (case construct_streams ss of Inl e \<Rightarrow> Inl e | Inr ws \<Rightarrow> Inr (w # ws)))"

definition optimize_fuel_mix ::
  "(linprog_problem \<Rightarrow> linprog_result) \<Rightarrow> WasteStream list \<Rightarrow> KilnOperationalParameters
     \<Rightarrow> py_error + mix_report" where
  "optimize_fuel_mix linprog raw params =
     (case construct_streams raw of
        Inl e \<Rightarrow> Inl e
      | Inr streams_objs \<Rightarrow> calculate_optimal_mix linprog streams_objs params)"

subsection \<open>What a problem handed to \<open>linprog\<close> asks for\<close>

definition dot :: "real list \<Rightarrow> real list \<Rightarrow> real" where
  "dot a xs = sum_list (map2 (*) a xs)"

definition satisfies_ub :: "linprog_problem \<Rightarrow> real list \<Rightarrow> bool" where
  "satisfies_ub lp xs = list_all2 (\<lambda>row b. dot row xs \<le> b) (lp_A_ub lp) (lp_b_ub lp)"

definition within_bounds :: "linprog_problem \<Rightarrow> real list \<Rightarrow> bool" where
  "within_bounds lp xs = list_all2 (\<lambda>b v. fst b \<le> v \<and> v \<le> snd b) (lp_bounds lp) xs"

text \<open>
  The two forms of a weighted-average limit the specification compares: the linear form
  \<open>\<Sum> x\<^sub>i (P\<^sub>i - L)\<close> and the average \<open>(\<Sum> x\<^sub>i P\<^sub>i) / (\<Sum> x\<^sub>i)\<close>.
\<close>

definition linear_form :: "(WasteStream \<Rightarrow> real) \<Rightarrow> real \<Rightarrow> WasteStream list \<Rightarrow> real list \<Rightarrow> real" where
  "linear_form P L ws xs = sum_list (map2 (\<lambda>w v. v * (P w - L)) ws xs)"

definition weighted_average :: "(WasteStream \<Rightarrow> real) \<Rightarrow> WasteStream list \<Rightarrow> real list \<Rightarrow> real" where
  "weighted_average P ws xs = sum_list (map2 (\<lambda>w v. v * P w) ws xs) / sum_list xs"

section \<open>advanced\_optimizer.py: the fixed-ratio (protocol) formulation\<close>

text \<open>
  One dictionary of \<open>waste_data\<close>. The keys \<open>name\<close>, \<open>pci\<close>, \<open>chlorine\<close>, \<open>sulfur\<close> and
  \<open>humidity\<close> are read with \<open>w[...]\<close>; \<open>stock\<close> is read with \<open>w.get('stock', 0)\<close> and may
  be absent. The dictionary \<open>constraints\<close> holds each limit only when it is configured.
\<close>

record waste_entry =
  name' :: string
  pci :: real
  chlorine :: real
  sulfur :: real
  humidity' :: real
  stock :: "real option"

record limits =
  max_chlorine :: "real option"
  max_humidity :: "real option"
  max_sulfur' :: "real option"
  min_pci :: "real option"

text \<open>\<open>PETCOKE_PROPS\<close>, the fixed base material.\<close>

definition petcoke_pci :: real where "petcoke_pci = 8200"
definition petcoke_chlorine :: real where "petcoke_chlorine = 0.0005"
definition petcoke_sulfur :: real where "petcoke_sulfur = 0.04"
definition petcoke_humidity :: real where "petcoke_humidity = 0.01"

text \<open>
  The problem as the code assembles it with PuLP: variables are keyed by the waste name,
  an affine expression is a constant and a list of (variable, coefficient) terms.
\<close>

record LpVariable =
  lowBound :: real
  upBound :: real

record affine =
  const_term :: real
  var_terms :: "(string \<times> real) list"

datatype sense = LpConstraintLE | LpConstraintEQ | LpConstraintGE

record LpConstraint =
  con_name :: string
  con_lhs :: affine
  con_sense :: sense
  con_rhs :: real

record LpProblem =
  objective :: affine
  constraints :: "LpConstraint list"
  waste_names :: "string list"
  waste_vars :: "string \<rightharpoonup> LpVariable"

datatype lp_status = Not_Solved | Optimal | Infeasible | Unbounded | Undefined

fun LpStatus :: "lp_status \<Rightarrow> string" where
  "LpStatus Not_Solved = ''Not Solved''"
| "LpStatus Optimal = ''Optimal''"
| "LpStatus Infeasible = ''Infeasible''"
| "LpStatus Unbounded = ''Unbounded''"
| "LpStatus Undefined = ''Undefined''"

text \<open>What the solver leaves behind: the status and each variable's value (\<open>None\<close> when unset).\<close>

record lp_solution =
  sol_status :: lp_status
  var_value :: "string \<Rightarrow> real option"

text \<open>
  \<open>lpSum([waste_vars[w['name']] * w[prop] for w in waste_data])\<close>. In PuLP the product of
  a variable and the number 0 is the empty expression, so a material whose property is 0
  contributes no term.
\<close>

definition weighted_terms :: "(waste_entry \<Rightarrow> real) \<Rightarrow> waste_entry list \<Rightarrow> (string \<times> real) list" where
  "weighted_terms prop waste_data =
     map (\<lambda>w. (name' w, prop w)) (filter (\<lambda>w. prop w \<noteq> 0) waste_data)"

definition mass_balance :: "waste_entry list \<Rightarrow> LpConstraint" where
  "mass_balance waste_data =
     \<lparr> con_name = ''Protocol_Half_Waste'',
       con_lhs = \<lparr> const_term = 0, var_terms = map (\<lambda>w. (name' w, 1)) waste_data \<rparr>,
       con_sense = LpConstraintEQ, con_rhs = 0.50 \<rparr>"

definition quality_constraints :: "waste_entry list \<Rightarrow> limits \<Rightarrow> LpConstraint list" where
  "quality_constraints waste_data cs =
     (case max_chlorine cs of None \<Rightarrow> []
      | Some l \<Rightarrow>
          [\<lparr> con_name = ''Chlorine_Limit'',
             con_lhs = \<lparr> const_term = 0.5 * petcoke_chlorine, var_terms = weighted_terms chlorine waste_data \<rparr>,
             con_sense = LpConstraintLE, con_rhs = l \<rparr>]) @
     (case max_humidity cs of None \<Rightarrow> []
      | Some l \<Rightarrow>
          [\<lparr> con_name = ''Humidity_Limit'',
             con_lhs = \<lparr> const_term = 0.5 * petcoke_humidity, var_terms = weighted_terms humidity' waste_data \<rparr>,
             con_sense = LpConstraintLE, con_rhs = l \<rparr>]) @
     (case max_sulfur' cs of None \<Rightarrow> []
      | Some l \<Rightarrow>
          [\<lparr> con_name = ''Sulfur_Limit'',
             con_lhs = \<lparr> const_term = 0.5 * petcoke_sulfur, var_terms = weighted_terms sulfur waste_data \<rparr>,
             con_sense = LpConstraintLE, con_rhs = l \<rparr>]) @
     (case min_pci cs of None \<Rightarrow> []
      | Some l \<Rightarrow>
          [\<lparr> con_name = ''Min_PCI_Limit'',
             con_lhs = \<lparr> const_term = 0.5 * petcoke_pci, var_terms = weighted_terms pci waste_data \<rparr>,
             con_sense = LpConstraintGE, con_rhs = l \<rparr>])"

text \<open>\<open>LpVariable.dicts(..., lowBound=0, upBound=0.5)\<close>: one variable per distinct name.\<close>

definition initial_vars :: "string list \<Rightarrow> (string \<rightharpoonup> LpVariable)" where
  "initial_vars names = map_of (map (\<lambda>n. (n, \<lparr> lowBound = 0, upBound = 0.5 \<rparr>)) names)"

text \<open>
  The availability loop: \<open>if w.get('stock', 0) <= 0: waste_vars[w['name']].upBound = 0\<close>.
  Every name of \<open>waste_data\<close> is a key of \<open>waste_vars\<close>, so the lookup never misses.
\<close>

definition get_stock :: "waste_entry \<Rightarrow> real" where
  "get_stock w = (case stock w of None \<Rightarrow> 0 | Some s \<Rightarrow> s)"

definition availability_check :: "waste_entry \<Rightarrow> (string \<rightharpoonup> LpVariable) \<Rightarrow> (string \<rightharpoonup> LpVariable)" where
  "availability_check w vars =
     (if get_stock w \<le> 0
      then (case vars (name' w) of
              None \<Rightarrow> vars
            | Some var \<Rightarrow> vars(name' w \<mapsto> var\<lparr>upBound := 0\<rparr>))
      else vars)"

definition build_problem :: "waste_entry list \<Rightarrow> limits \<Rightarrow> LpProblem" where
  "build_problem waste_data cs =
     \<lparr> objective = \<lparr> const_term = 0.5 * petcoke_pci, var_terms = weighted_terms pci waste_data \<rparr>,
       constraints = mass_balance waste_data # quality_constraints waste_data cs,
       waste_names = map name' waste_data,
       waste_vars = fold availability_check waste_data (initial_vars (map name' waste_data)) \<rparr>"

text \<open>The result dataclass, with the \<open>details\<close> dictionary as a record of its own.\<close>

record details_dict =
  final_chlorine :: real
  final_humidity :: real
  final_sulfur :: real
  protocol :: string

record OptimizationResult =
  status :: string
  mix :: "string \<rightharpoonup> real"
  objective_value :: real
  details :: details_dict

text \<open>\<open>pct = round(val * 100, 2) if val else 0.0\<close>: \<open>None\<close> and \<open>0.0\<close> are both falsy.\<close>

definition pct_of :: "real option \<Rightarrow> real" where
  "pct_of val = (case val of None \<Rightarrow> 0 | Some v \<Rightarrow> if v = 0 then 0 else py_round (v * 100) 2)"

definition add_pct :: "(string \<Rightarrow> real option) \<Rightarrow> string \<Rightarrow> (string \<rightharpoonup> real) \<Rightarrow> (string \<rightharpoonup> real)" where
  "add_pct vals w mix_results =
     (if pct_of (vals w) > 0 then mix_results(w \<mapsto> pct_of (vals w)) else mix_results)"

definition mix_of :: "(string \<Rightarrow> real option) \<Rightarrow> string list \<Rightarrow> (string \<rightharpoonup> real)" where
  "mix_of vals names = fold (add_pct vals) names [''Petcoke (Base)'' \<mapsto> 50]"

text \<open>
  \<open>value(expr)\<close> of an affine expression is \<open>None\<close> as soon as one of its variables has
  no value.
\<close>

fun value_terms :: "(string \<Rightarrow> real option) \<Rightarrow> (string \<times> real) list \<Rightarrow> real option" where
  "value_terms vals [] = Some 0"
| "value_terms vals ((n, k) # ts) =
     (case vals n of None \<Rightarrow> None
      | Some v \<Rightarrow> (case value_terms vals ts of None \<Rightarrow> None | Some r \<Rightarrow> Some (v * k + r)))"

definition value_affine :: "(string \<Rightarrow> real option) \<Rightarrow> affine \<Rightarrow> real option" where
  "value_affine vals e = map_option (\<lambda>r. const_term e + r) (value_terms vals (var_terms e))"

text \<open>
  \<open>value(self.prob.objective)\<close>, read after the solve. When the objective has no variable
  term, \<open>solve\<close> adds the variable \<open>__dummy\<close> to it; the variable stays in the expression
  with coefficient 0 and never receives a value, so the value of the objective is \<open>None\<close>.
\<close>

definition value_objective :: "(string \<Rightarrow> real option) \<Rightarrow> affine \<Rightarrow> real option" where
  "value_objective vals e = (if var_terms e = [] then None else value_affine vals e)"

text \<open>
  \<open>(0.5 * PETCOKE_PROPS[prop]) + sum([value(waste_vars[w['name']]) * w[prop] ...])\<close>:
  a plain Python sum over every material, which raises \<open>TypeError\<close> at a variable
  without a value.
\<close>

definition total_of :: "real \<Rightarrow> (waste_entry \<Rightarrow> real) \<Rightarrow> (string \<Rightarrow> real option) \<Rightarrow> waste_entry list
    \<Rightarrow> py_error + real" where
  "total_of base prop vals waste_data =
     (case value_terms vals (map (\<lambda>w. (name' w, prop w)) waste_data) of
        None \<Rightarrow> Inl TypeError
      | Some r \<Rightarrow> Inr (0.5 * base + r))"

text \<open>
  \<open>WasteMixOptimizer.solve_optimal_mix\<close>. The solver behind \<open>self.prob.solve\<close> is a
  library outside the repository and is a parameter here.
\<close>

definition solve_optimal_mix ::
  "(LpProblem \<Rightarrow> lp_solution) \<Rightarrow> waste_entry list \<Rightarrow> limits \<Rightarrow> py_error + OptimizationResult" where
  "solve_optimal_mix solve waste_data cs =
     (let prob = build_problem waste_data cs;
          sol = solve prob;
          mix_results = mix_of (var_value sol) (waste_names prob);
          obj_val = value_objective (var_value sol) (objective prob)
      in case total_of petcoke_chlorine chlorine (var_value sol) waste_data of
           Inl e \<Rightarrow> Inl e
         | Inr total_cl \<Rightarrow>
        (case total_of petcoke_humidity humidity' (var_value sol) waste_data of
           Inl e \<Rightarrow> Inl e
         | Inr total_h \<Rightarrow>
        (case total_of petcoke_sulfur sulfur (var_value sol) waste_data of
           Inl e \<Rightarrow> Inl e
         | Inr total_s \<Rightarrow>
             Inr \<lparr> status = LpStatus (sol_status sol),
                   mix = mix_results,
                   objective_value =
                     (case obj_val of None \<Rightarrow> 0 | Some v \<Rightarrow> if v = 0 then 0 else py_round v 2),
                   details =
                     \<lparr> final_chlorine = py_round total_cl 5,
                       final_humidity = py_round total_h 5,
                       final_sulfur = py_round total_s 5,
                       protocol = ''50/50 Nexus'' \<rparr> \<rparr>)))"

subsection \<open>What a problem handed to the solver asks for\<close>

definition eval_affine :: "affine \<Rightarrow> (string \<Rightarrow> real) \<Rightarrow> real" where
  "eval_affine e v = const_term e + sum_list (map (\<lambda>t. v (fst t) * snd t) (var_terms e))"

definition holds :: "LpConstraint \<Rightarrow> (string \<Rightarrow> real) \<Rightarrow> bool" where
  "holds con v =
     (case con_sense con of
        LpConstraintLE \<Rightarrow> eval_affine (con_lhs con) v \<le> con_rhs con
      | LpConstraintEQ \<Rightarrow> eval_affine (con_lhs con) v = con_rhs con
      | LpConstraintGE \<Rightarrow> eval_affine (con_lhs con) v \<ge> con_rhs con)"

definition in_bounds :: "LpProblem \<Rightarrow> (string \<Rightarrow> real) \<Rightarrow> string \<Rightarrow> bool" where
  "in_bounds prob v n =
     (case waste_vars prob n of
        None \<Rightarrow> True
      | Some var \<Rightarrow> lowBound var \<le> v n \<and> v n \<le> upBound var)"

definition feasible :: "LpProblem \<Rightarrow> (string \<Rightarrow> real) \<Rightarrow> bool" where
  "feasible prob v =
     (list_all (\<lambda>con. holds con v) (constraints prob) \<and>
      list_all (in_bounds prob v) (waste_names prob))"

text \<open>
  The part of the solver's contract the result code relies on: every variable of the
  problem has a value, and the value lies within the variable's bounds.
\<close>

definition respects_bounds :: "LpProblem \<Rightarrow> (string \<Rightarrow> real option) \<Rightarrow> bool" where
  "respects_bounds prob vals =
     list_all (\<lambda>n. case vals n of None \<Rightarrow> False | Some v \<Rightarrow> in_bounds prob (\<lambda>m. v) n)
       (waste_names prob)"

text \<open>
  A blend property of the protocol formulation at a point: the contribution of the fixed
  half plus the weighted sum over the waste fractions.
\<close>

definition blend_property :: "real \<Rightarrow> (waste_entry \<Rightarrow> real) \<Rightarrow> (string \<Rightarrow> real) \<Rightarrow> waste_entry list \<Rightarrow> real" where
  "blend_property base prop v wd = 0.5 * base + sum_list (map (\<lambda>w. v (name' w) * prop w) wd)"

text \<open>An optimum of a problem: a feasible point no feasible point beats on the objective.\<close>

definition is_optimum :: "LpProblem \<Rightarrow> (string \<Rightarrow> real) \<Rightarrow> bool" where
  "is_optimum prob v =
     (feasible prob v \<and>
      (\<forall>u. feasible prob u \<longrightarrow> eval_affine (objective prob) u \<le> eval_affine (objective prob) v))"

section \<open>The sample data of the two modules\<close>

text \<open>The streams and parameters of the test run at the end of \<open>optimization_engine.py\<close>.\<close>

definition streams :: "WasteStream list" where
  "streams =
     [ \<lparr> name = ''Tires'', pci_value = 7500, humidity = 0.02, chloride_content = 0.01,
         sulfur_content = 1.5, density = 0.4, cost = 50, available_mass = 5 \<rparr>,
       \<lparr> name = ''RDF_High_Quality'', pci_value = 4500, humidity = 0.15, chloride_content = 0.5,
         sulfur_content = 0.3, density = 0.2, cost = 20, available_mass = 10 \<rparr>,
       \<lparr> name = ''Biomass_Agro'', pci_value = 3200, humidity = 0.30, chloride_content = 0.05,
         sulfur_content = 0.1, density = 0.3, cost = 10, available_mass = 20 \<rparr>,
       \<lparr> name = ''Industrial_Sludge'', pci_value = 1200, humidity = 0.60, chloride_content = 0.02,
         sulfur_content = 0.8, density = 1.1, cost = - 10, available_mass = 8 \<rparr> ]"

definition sample_params :: KilnOperationalParameters where
  "sample_params =
     \<lparr> target_pci = 4500, max_sulfur = 1.0, max_chloride = 0.8, target_tsr = 0.8,
       feed_rate_capacity = 15 \<rparr>"

text \<open>The waste data and constraints of the simulation at the end of \<open>advanced_optimizer.py\<close>.\<close>

definition sample_waste_data :: "waste_entry list" where
  "sample_waste_data =
     [ \<lparr> name' = ''Waste A (Tires)'', pci = 8000, chlorine = 0.01, sulfur = 1.5,
         humidity' = 0.02, stock = Some 100 \<rparr>,
       \<lparr> name' = ''Waste B (Wood)'', pci = 4000, chlorine = 0.02, sulfur = 0.1,
         humidity' = 0.20, stock = Some 50 \<rparr>,
       \<lparr> name' = ''Waste C (Sludge)'', pci = 1000, chlorine = 0.05, sulfur = 0.2,
         humidity' = 0.60, stock = Some 200 \<rparr> ]"

definition sample_constraints :: limits where
  "sample_constraints =
     \<lparr> max_chlorine = Some 0.03, max_humidity = Some 0.25, max_sulfur' = Some 1.0,
       min_pci = Some 3000 \<rparr>"

definition no_limits :: limits where
  "no_limits = \<lparr> max_chlorine = None, max_humidity = None, max_sulfur' = None, min_pci = None \<rparr>"

text \<open>A point of the sample problem: the whole waste share goes to the wood.\<close>

definition wood_only :: "string \<Rightarrow> real" where
  "wood_only n = (if n = ''Waste B (Wood)'' then 0.5 else 0)"

text \<open>Solver outcomes used below: a successful and a failed \<open>linprog\<close> result, a PuLP solution.\<close>

definition linprog_success :: "real list \<Rightarrow> linprog_problem \<Rightarrow> linprog_result" where
  "linprog_success xs lp =
     \<lparr> res_x = xs, res_fun = dot (lp_c lp) xs, res_success = True, res_status = 0,
       res_message = ''Optimization terminated successfully.'' \<rparr>"

definition linprog_failure :: "nat \<Rightarrow> string \<Rightarrow> linprog_problem \<Rightarrow> linprog_result" where
  "linprog_failure st msg lp =
     \<lparr> res_x = [], res_fun = 0, res_success = False, res_status = st, res_message = msg \<rparr>"

definition pulp_solution :: "lp_status \<Rightarrow> (string \<times> real) list \<Rightarrow> LpProblem \<Rightarrow> lp_solution" where
  "pulp_solution st vals prob = \<lparr> sol_status = st, var_value = map_of vals \<rparr>"

text \<open>The sample streams with the tires out of stock, and the sample waste data likewise.\<close>

definition streams_tires_exhausted :: "WasteStream list" where
  "streams_tires_exhausted = (hd streams)\<lparr>available_mass := 0\<rparr> # tl streams"

definition waste_data_tires_exhausted :: "waste_entry list" where
  "waste_data_tires_exhausted = (hd sample_waste_data)\<lparr>stock := Some 0\<rparr> # tl sample_waste_data"

text \<open>
  Two streams with a few kilograms in stock each, and parameters that admit both in full.
\<close>

definition small_streams :: "WasteStream list" where
  "small_streams =
     [ \<lparr> name = ''A'', pci_value = 3000, humidity = 0.2, chloride_content = 0,
         sulfur_content = 0, density = 0.5, cost = 0, available_mass = 0.014 \<rparr>,
       \<lparr> name = ''B'', pci_value = 6000, humidity = 0.1, chloride_content = 0,
         sulfur_content = 0, density = 0.5, cost = 0, available_mass = 0.006 \<rparr> ]"

definition small_params :: KilnOperationalParameters where
  "small_params =
     \<lparr> target_pci = 3900, max_sulfur = 1.0, max_chloride = 0.1, target_tsr = 0.8,
       feed_rate_capacity = 15 \<rparr>"



text \<open>
  Requests without a feasible point: the sample streams with a negative feed capacity, and
  the sample waste data with a minimum calorific value no blend reaches.
\<close>

definition closed_params :: KilnOperationalParameters where
  "closed_params = sample_params\<lparr>feed_rate_capacity := - 1\<rparr>"

definition unreachable_pci :: limits where
  "unreachable_pci = no_limits\<lparr>min_pci := Some 9000\<rparr>"

definition all_zero :: "(string \<times> real) list" where
  "all_zero = [(''Waste A (Tires)'', 0), (''Waste B (Wood)'', 0), (''Waste C (Sludge)'', 0)]"

definition infeasible_result :: OptimizationResult where
  "infeasible_result =
     \<lparr> status = ''Infeasible'', mix = [''Petcoke (Base)'' \<mapsto> 50], objective_value = 4100,
       details = \<lparr> final_chlorine = 0.00025, final_humidity = 0.005, final_sulfur = 0.02,
                   protocol = ''50/50 Nexus'' \<rparr> \<rparr>"

text \<open>A request that names the same stream twice, and the report the code returns for it.\<close>

definition duplicate_streams :: "WasteStream list" where
  "duplicate_streams = [streams ! 1, streams ! 1]"

definition duplicate_report :: mix_report where
  "duplicate_report = Target_Achieved [''RDF_High_Quality'' \<mapsto> 5] 15 4500 0.3 0.5 300"

text \<open>
  The two materials of the fixed-ratio test: A with calorific value 8000, B with 4000,
  both in stock, and the point that gives the whole waste share to A.
\<close>

definition material_A :: waste_entry where
  "material_A = \<lparr> name' = ''A'', pci = 8000, chlorine = 0.01, sulfur = 0.5, humidity' = 0.02,
     stock = Some 1000000 \<rparr>"

definition material_B :: waste_entry where
  "material_B = \<lparr> name' = ''B'', pci = 4000, chlorine = 0.02, sulfur = 0.1, humidity' = 0.20,
     stock = Some 1000000 \<rparr>"

definition all_A :: "string \<Rightarrow> real" where
  "all_A n = (if n = ''A'' then 0.5 else 0)"

text \<open>The result of the protocol formulation for no material and an infeasible solve.\<close>

definition empty_list_result :: OptimizationResult where
  "empty_list_result =
     \<lparr> status = ''Infeasible'', mix = [''Petcoke (Base)'' \<mapsto> 50], objective_value = 0,
       details = \<lparr> final_chlorine = 0.00025, final_humidity = 0.005, final_sulfur = 0.02,
                   protocol = ''50/50 Nexus'' \<rparr> \<rparr>"

text \<open>A single material without calorific value, in stock.\<close>

definition inert_material :: waste_entry where
  "inert_material = \<lparr> name' = ''Ash'', pci = 0, chlorine = 0.01, sulfur = 0.1, humidity' = 0.05,
     stock = Some 100 \<rparr>"

section \<open>The linearised limits of the free-allocation formulation\<close>

lemma dot_ones: "length xs = n \<Longrightarrow> dot (replicate n 1) xs = sum_list xs"
  unfolding dot_def
  by (induction xs arbitrary: n) auto

lemma dot_linear_form:
  "length xs = length ws \<Longrightarrow> dot (map (\<lambda>w. P w - L) ws) xs = linear_form P L ws xs"
  unfolding dot_def linear_form_def
  by (induction xs ws rule: list_induct2) (simp_all add: mult.commute)

lemma dot_neg_linear_form:
  "length xs = length ws \<Longrightarrow> dot (map (\<lambda>w. L - P w) ws) xs = - linear_form P L ws xs"
  unfolding dot_def linear_form_def
  by (induction xs ws rule: list_induct2) (simp_all add: algebra_simps)

lemma linear_form_split:
  "length xs = length ws \<Longrightarrow>
   linear_form P L ws xs = sum_list (map2 (\<lambda>w v. v * P w) ws xs) - L * sum_list xs"
  unfolding linear_form_def
  by (induction xs ws rule: list_induct2) (simp_all add: algebra_simps)

lemma linear_form_le_iff_average:
  assumes "length xs = length ws" "0 < sum_list xs"
  shows "linear_form P L ws xs \<le> 0 \<longleftrightarrow> weighted_average P ws xs \<le> L"
  using assms by (simp add: linear_form_split weighted_average_def field_simps)

lemma linear_form_ge_iff_average:
  assumes "length xs = length ws" "0 < sum_list xs"
  shows "0 \<le> linear_form P L ws xs \<longleftrightarrow> L \<le> weighted_average P ws xs"
  using assms by (simp add: linear_form_split weighted_average_def field_simps)

lemma satisfies_ub_build_lp:
  assumes "length xs = length ws"
  shows "satisfies_ub (build_lp ws p) xs \<longleftrightarrow>
      (sum_list xs \<le> feed_rate_capacity p \<and>
       linear_form sulfur_content (max_sulfur p) ws xs \<le> 0 \<and>
       linear_form chloride_content (max_chloride p) ws xs \<le> 0 \<and>
       0 \<le> linear_form pci_value (0.95 * target_pci p) ws xs \<and>
       linear_form pci_value (1.05 * target_pci p) ws xs \<le> 0)"
  using assms
  by (simp add: satisfies_ub_def build_lp_def dot_ones dot_linear_form dot_neg_linear_form)

text \<open>
  C1. The model builder of the free-allocation formulation hands the solver, after the
  capacity row, exactly four rows with right-hand side 0: the sulfur row with coefficients
  \<open>S\<^sub>i - max_sulfur\<close>, the chloride row with \<open>C\<^sub>i - max_chloride\<close>, and the two rows of the
  calorific band with \<open>-(P\<^sub>i - 0.95 target)\<close> and \<open>P\<^sub>i - 1.05 target\<close>. A vector \<open>xs\<close> of the
  right length satisfies these rows exactly when each linear form \<open>\<Sum> x\<^sub>i (P\<^sub>i - L)\<close> has the
  required sign. The substitution is exact: for every property \<open>P\<close> and limit \<open>L\<close>, when the
  total mass is positive the linear form is at most 0 (at least 0) exactly when the
  weighted average \<open>(\<Sum> x\<^sub>i P\<^sub>i) / (\<Sum> x\<^sub>i)\<close> is at most \<open>L\<close> (at least \<open>L\<close>); so the rows hold
  exactly when the averages respect the sulfur limit, the chloride limit and the band
  \<open>[0.95 target, 1.05 target]\<close>.
\<close>

theorem weighted_average_limits_linearized:
  assumes "length xs = length ws"
  shows "lp_A_ub (build_lp ws p) =
           [ replicate (length ws) 1,
             map (\<lambda>w. sulfur_content w - max_sulfur p) ws,
             map (\<lambda>w. chloride_content w - max_chloride p) ws,
             map (\<lambda>w. - (pci_value w - 0.95 * target_pci p)) ws,
             map (\<lambda>w. pci_value w - 1.05 * target_pci p) ws ]
       \<and> lp_b_ub (build_lp ws p) = [feed_rate_capacity p, 0, 0, 0, 0]
       \<and> (satisfies_ub (build_lp ws p) xs \<longleftrightarrow>
            sum_list xs \<le> feed_rate_capacity p \<and>
            linear_form sulfur_content (max_sulfur p) ws xs \<le> 0 \<and>
            linear_form chloride_content (max_chloride p) ws xs \<le> 0 \<and>
            0 \<le> linear_form pci_value (0.95 * target_pci p) ws xs \<and>
            linear_form pci_value (1.05 * target_pci p) ws xs \<le> 0)
       \<and> (0 < sum_list xs \<longrightarrow>
            (linear_form P L ws xs \<le> 0 \<longleftrightarrow> weighted_average P ws xs \<le> L) \<and>
            (0 \<le> linear_form P L ws xs \<longleftrightarrow> L \<le> weighted_average P ws xs))
       \<and> (0 < sum_list xs \<longrightarrow>
            (satisfies_ub (build_lp ws p) xs \<longleftrightarrow>
              sum_list xs \<le> feed_rate_capacity p \<and>
              weighted_average sulfur_content ws xs \<le> max_sulfur p \<and>
              weighted_average chloride_content ws xs \<le> max_chloride p \<and>
              0.95 * target_pci p \<le> weighted_average pci_value ws xs \<and>
              weighted_average pci_value ws xs \<le> 1.05 * target_pci p))"
proof -
  have a: "lp_A_ub (build_lp ws p) =
           [ replicate (length ws) 1,
             map (\<lambda>w. sulfur_content w - max_sulfur p) ws,
             map (\<lambda>w. chloride_content w - max_chloride p) ws,
             map (\<lambda>w. - (pci_value w - 0.95 * target_pci p)) ws,
             map (\<lambda>w. pci_value w - 1.05 * target_pci p) ws ]"
    by (simp add: build_lp_def)
  have b: "lp_b_ub (build_lp ws p) = [feed_rate_capacity p, 0, 0, 0, 0]"
    by (simp add: build_lp_def)
  note c = satisfies_ub_build_lp [OF assms, of p]
  have d: "(linear_form P L ws xs \<le> 0 \<longleftrightarrow> weighted_average P ws xs \<le> L) \<and>
           (0 \<le> linear_form P L ws xs \<longleftrightarrow> L \<le> weighted_average P ws xs)"
    if "0 < sum_list xs"
    using linear_form_le_iff_average [OF assms that] linear_form_ge_iff_average [OF assms that]
    by blast
  have e: "satisfies_ub (build_lp ws p) xs \<longleftrightarrow>
            sum_list xs \<le> feed_rate_capacity p \<and>
            weighted_average sulfur_content ws xs \<le> max_sulfur p \<and>
            weighted_average chloride_content ws xs \<le> max_chloride p \<and>
            0.95 * target_pci p \<le> weighted_average pci_value ws xs \<and>
            weighted_average pci_value ws xs \<le> 1.05 * target_pci p"
    if "0 < sum_list xs"
    unfolding c linear_form_le_iff_average [OF assms that]
      linear_form_ge_iff_average [OF assms that]
    by (rule refl)
  from a b c d e show ?thesis by blast
qed

text \<open>
  On the sample streams, three, five and seven tons of the first three streams: the rows
  hold, and the average calorific value, 67400 / 15, lies in the band around 4500.
\<close>

theorem weighted_average_limits_linearized_witness:
  "length [3, 5, 7, 0 :: real] = length streams
   \<and> 0 < sum_list [3, 5, 7, 0 :: real]
   \<and> satisfies_ub (build_lp streams sample_params) [3, 5, 7, 0]
   \<and> weighted_average pci_value streams [3, 5, 7, 0] = 67400 / 15
   \<and> linear_form pci_value (1.05 * target_pci sample_params) streams [3, 5, 7, 0] \<le> 0"
  using weighted_average_limits_linearized [of "[3, 5, 7, 0]" streams sample_params]
  by (simp add: streams_def sample_params_def weighted_average_def linear_form_def)

section \<open>The problem built by the protocol formulation\<close>

lemma initial_vars_apply:
  "initial_vars names n = (if n \<in> set names then Some \<lparr> lowBound = 0, upBound = 0.5 \<rparr> else None)"
  unfolding initial_vars_def
  by (induction names) auto

lemma availability_check_apply:
  "availability_check w vars n =
     (case vars n of
        None \<Rightarrow> None
      | Some var \<Rightarrow> Some (if name' w = n \<and> get_stock w \<le> 0 then var\<lparr>upBound := 0\<rparr> else var))"
  by (simp add: availability_check_def split: option.splits)

lemma fold_availability_check:
  "fold availability_check wd vars n =
     (case vars n of
        None \<Rightarrow> None
      | Some var \<Rightarrow>
          Some (if \<exists>w \<in> set wd. name' w = n \<and> get_stock w \<le> 0 then var\<lparr>upBound := 0\<rparr> else var))"
proof (induction wd arbitrary: vars)
  case Nil
  then show ?case by (simp split: option.splits)
next
  case (Cons w wd)
  have "fold availability_check (w # wd) vars n = fold availability_check wd (availability_check w vars) n"
    by simp
  also have "\<dots> = (case availability_check w vars n of
        None \<Rightarrow> None
      | Some var \<Rightarrow>
          Some (if \<exists>w \<in> set wd. name' w = n \<and> get_stock w \<le> 0 then var\<lparr>upBound := 0\<rparr> else var))"
    by (rule Cons.IH)
  also have "\<dots> = (case vars n of
        None \<Rightarrow> None
      | Some var \<Rightarrow>
          Some (if \<exists>w \<in> set (w # wd). name' w = n \<and> get_stock w \<le> 0 then var\<lparr>upBound := 0\<rparr> else var))"
    by (auto simp: availability_check_apply split: option.splits)
  finally show ?case .
qed

lemma waste_vars_build_problem:
  "waste_vars (build_problem wd cs) n =
     (if n \<in> name' ` set wd
      then Some \<lparr> lowBound = 0,
                  upBound = (if \<exists>w \<in> set wd. name' w = n \<and> get_stock w \<le> 0 then 0 else 0.5) \<rparr>
      else None)"
  by (auto simp: build_problem_def fold_availability_check initial_vars_apply)

lemma eval_weighted_terms:
  "eval_affine \<lparr> const_term = k, var_terms = weighted_terms prop wd \<rparr> v
     = k + sum_list (map (\<lambda>w. v (name' w) * prop w) wd)"
  unfolding eval_affine_def weighted_terms_def
  by (induction wd) simp_all

lemma holds_mass_balance:
  "holds (mass_balance wd) v \<longleftrightarrow> sum_list (map (\<lambda>w. v (name' w)) wd) = 0.5"
  by (simp add: holds_def mass_balance_def eval_affine_def comp_def)

lemma mass_balance_fields:
  "con_sense (mass_balance wd) = LpConstraintEQ" "con_rhs (mass_balance wd) = 0.5"
  by (simp_all add: mass_balance_def)

lemma constraints_build_problem:
  "constraints (build_problem wd cs) = mass_balance wd # quality_constraints wd cs"
  by (simp add: build_problem_def)

lemma objective_build_problem:
  "eval_affine (objective (build_problem wd cs)) v = blend_property petcoke_pci pci v wd"
  by (simp add: build_problem_def eval_weighted_terms blend_property_def)

lemma feasible_fractions:
  assumes f: "feasible (build_problem wd cs) v"
  shows "sum_list (map (\<lambda>w. v (name' w)) wd) = 0.5"
    and "\<forall>w \<in> set wd. 0 \<le> v (name' w) \<and> v (name' w) \<le> 0.5"
proof -
  from f have "holds (mass_balance wd) v"
    by (simp add: feasible_def build_problem_def)
  then show "sum_list (map (\<lambda>w. v (name' w)) wd) = 0.5"
    by (simp add: holds_mass_balance)
  show "\<forall>w \<in> set wd. 0 \<le> v (name' w) \<and> v (name' w) \<le> 0.5"
  proof
    fix w assume w: "w \<in> set wd"
    from f have "list_all (in_bounds (build_problem wd cs) v) (map name' wd)"
      by (simp add: feasible_def build_problem_def)
    with w have "in_bounds (build_problem wd cs) v (name' w)"
      by (simp add: list_all_iff)
    with w show "0 \<le> v (name' w) \<and> v (name' w) \<le> 0.5"
      by (auto simp: in_bounds_def waste_vars_build_problem split: if_splits)
  qed
qed

text \<open>
  C2. In the protocol formulation the first constraint of every problem is the mass
  balance, an equality with right-hand side 0.5 whose left-hand side is the sum of the
  fractions of all materials of the request. Each material's variable has lower bound 0 and
  upper bound 0.5 (or 0, once the availability check has run), so in every feasible point
  the fractions sum to exactly 0.5 and each lies in [0, 0.5].
\<close>

theorem protocol_mass_balance_is_equality:
  "constraints (build_problem wd cs) = mass_balance wd # quality_constraints wd cs
   \<and> con_sense (mass_balance wd) = LpConstraintEQ
   \<and> con_rhs (mass_balance wd) = 0.5
   \<and> (holds (mass_balance wd) v \<longleftrightarrow> sum_list (map (\<lambda>w. v (name' w)) wd) = 0.5)
   \<and> (\<forall>w \<in> set wd. \<exists>var. waste_vars (build_problem wd cs) (name' w) = Some var
          \<and> lowBound var = 0 \<and> upBound var \<le> 0.5
          \<and> (upBound var = 0.5 \<or> upBound var = 0))
   \<and> (feasible (build_problem wd cs) v \<longrightarrow>
         sum_list (map (\<lambda>w. v (name' w)) wd) = 0.5
         \<and> (\<forall>w \<in> set wd. 0 \<le> v (name' w) \<and> v (name' w) \<le> 0.5))"
proof -
  have a: "constraints (build_problem wd cs) = mass_balance wd # quality_constraints wd cs"
    by (simp add: build_problem_def)
  note b = mass_balance_fields [of wd]
  have c: "\<forall>w \<in> set wd. \<exists>var. waste_vars (build_problem wd cs) (name' w) = Some var
          \<and> lowBound var = 0 \<and> upBound var \<le> 0.5
          \<and> (upBound var = 0.5 \<or> upBound var = 0)"
    by (simp add: waste_vars_build_problem)
  from a b c feasible_fractions [of wd cs v] holds_mass_balance [of wd v] show ?thesis by blast
qed

text \<open>The sample request: all of the waste share given to the wood is a feasible point.\<close>

theorem protocol_mass_balance_is_equality_witness:
  "feasible (build_problem sample_waste_data sample_constraints) wood_only
   \<and> sum_list (map (\<lambda>w. wood_only (name' w)) sample_waste_data) = 0.5
   \<and> list_all (\<lambda>w. 0 \<le> wood_only (name' w) \<and> wood_only (name' w) \<le> 0.5) sample_waste_data"
proof -
  have f: "feasible (build_problem sample_waste_data sample_constraints) wood_only"
    by (simp add: feasible_def build_problem_def mass_balance_def quality_constraints_def
        sample_waste_data_def sample_constraints_def holds_def eval_affine_def weighted_terms_def
        in_bounds_def initial_vars_def availability_check_def get_stock_def wood_only_def
        petcoke_pci_def petcoke_chlorine_def petcoke_sulfur_def petcoke_humidity_def)
  with protocol_mass_balance_is_equality [of sample_waste_data sample_constraints wood_only]
  show ?thesis by (simp add: list_all_iff)
qed

section \<open>Reading the solver's result back\<close>

lemma lp_c_build_lp: "lp_c (build_lp ws p) = [] \<longleftrightarrow> ws = []"
  by (simp add: build_lp_def)

lemma calculate_optimal_mix_nonempty:
  "ws \<noteq> [] \<Longrightarrow>
   calculate_optimal_mix linprog ws p =
     (if res_success (linprog (build_lp ws p)) then
        (case accumulate ws (res_x (linprog (build_lp ws p))) totals0 of
           Inl e \<Rightarrow> Inl e
         | Inr t \<Rightarrow> Inr (report_of_totals t))
      else Inr (Optimization_Failed (res_message (linprog (build_lp ws p)))))"
  by (simp add: calculate_optimal_mix_def linprog_call_def lp_c_build_lp)

lemma calculate_optimal_mix_empty: "calculate_optimal_mix linprog [] p = Inl invalid_c"
  by (simp add: calculate_optimal_mix_def linprog_call_def lp_c_build_lp)

lemma accumulate_kept:
  "length xs \<le> length ws \<Longrightarrow>
   accumulate ws xs t = Inr (fold (\<lambda>p. add_stream (fst p) (snd p)) (kept ws xs) t)"
  by (induction ws xs t rule: accumulate.induct) (simp_all add: kept_def)

lemma result_mix_fold_other:
  "\<forall>p \<in> set ps. name (fst p) \<noteq> n \<Longrightarrow>
   result_mix (fold (\<lambda>p. add_stream (fst p) (snd p)) ps t) n = result_mix t n"
  by (induction ps arbitrary: t) (auto simp: add_stream_def)

lemma within_bounds_build_lp:
  "within_bounds (build_lp ws p) xs \<longleftrightarrow>
     length xs = length ws \<and> (\<forall>i < length ws. 0 \<le> xs ! i \<and> xs ! i \<le> available_mass (ws ! i))"
  by (auto simp: within_bounds_def build_lp_def list_all2_conv_all_nth)

lemma kept_avoids_zero:
  assumes "length xs = length ws" "i < length ws" "xs ! i \<le> 1 / 1000" "distinct (map name ws)"
  shows "\<forall>p \<in> set (kept ws xs). name (fst p) \<noteq> name (ws ! i)"
proof
  fix q assume "q \<in> set (kept ws xs)"
  then have z: "q \<in> set (zip ws xs)" and big: "snd q > 1 / 1000"
    by (simp_all add: kept_def)
  from z obtain j where j: "j < length ws" "q = (ws ! j, xs ! j)"
    using assms(1) by (auto simp: set_zip)
  with big assms(3) have "j \<noteq> i" by auto
  with assms(2,4) j(1) have "map name ws ! j \<noteq> map name ws ! i"
    by (auto simp: distinct_conv_nth)
  with j assms(2) show "name (fst q) \<noteq> name (ws ! i)" by simp
qed

lemma free_zero_stock:
  assumes i: "i < length ws" and z: "available_mass (ws ! i) \<le> 0"
    and d: "distinct (map name ws)"
    and s: "res_success (linprog (build_lp ws p))"
    and wb: "within_bounds (build_lp ws p) (res_x (linprog (build_lp ws p)))"
  shows "\<exists>m f a su c k. calculate_optimal_mix linprog ws p = Inr (Target_Achieved m f a su c k)
           \<and> m (name (ws ! i)) = None"
proof -
  let ?res = "linprog (build_lp ws p)"
  from wb have len: "length (res_x ?res) = length ws"
    and b: "0 \<le> res_x ?res ! i \<and> res_x ?res ! i \<le> available_mass (ws ! i)"
    using i by (simp_all add: within_bounds_build_lp)
  from b z have "res_x ?res ! i \<le> 1 / 1000" by simp
  from kept_avoids_zero [OF len i this d]
  have "result_mix (fold (\<lambda>p. add_stream (fst p) (snd p)) (kept ws (res_x ?res)) totals0)
          (name (ws ! i)) = None"
    by (simp add: result_mix_fold_other totals0_def)
  moreover from i have "ws \<noteq> []" by auto
  ultimately show ?thesis
    using s len
    by (simp add: calculate_optimal_mix_nonempty accumulate_kept report_of_totals_def Let_def)
qed


lemma mix_of_apply_gen:
  "fold (add_pct vals) names m n =
     (if n \<in> set names \<and> pct_of (vals n) > 0 then Some (pct_of (vals n)) else m n)"
  by (induction names arbitrary: m) (auto simp: add_pct_def)

lemma mix_of_apply:
  "mix_of vals names n =
     (if n \<in> set names \<and> pct_of (vals n) > 0 then Some (pct_of (vals n))
      else if n = ''Petcoke (Base)'' then Some 50 else None)"
  by (simp add: mix_of_def mix_of_apply_gen)

lemma value_terms_Some:
  "(\<forall>w \<in> set wd. vals (name' w) \<noteq> None) \<Longrightarrow>
   value_terms vals (map (\<lambda>w. (name' w, prop w)) wd)
     = Some (sum_list (map (\<lambda>w. the (vals (name' w)) * prop w) wd))"
  by (induction wd) auto

lemma value_terms_None:
  "value_terms vals (map (\<lambda>w. (name' w, prop w)) wd) = None
     \<longleftrightarrow> (\<exists>w \<in> set wd. vals (name' w) = None)"
  by (induction wd) (auto split: option.splits)

lemma solve_optimal_mix_Some:
  assumes "\<forall>w \<in> set wd. var_value (solve (build_problem wd cs)) (name' w) \<noteq> None"
  shows "solve_optimal_mix solve wd cs =
     Inr \<lparr> status = LpStatus (sol_status (solve (build_problem wd cs))),
           mix = mix_of (var_value (solve (build_problem wd cs))) (map name' wd),
           objective_value =
             (case value_objective (var_value (solve (build_problem wd cs)))
                     (objective (build_problem wd cs)) of
                None \<Rightarrow> 0
              | Some z \<Rightarrow> if z = 0 then 0 else py_round z 2),
           details =
             \<lparr> final_chlorine = py_round (0.5 * petcoke_chlorine + sum_list (map (\<lambda>w. the (var_value (solve (build_problem wd cs)) (name' w)) * chlorine w) wd)) 5,
               final_humidity = py_round (0.5 * petcoke_humidity + sum_list (map (\<lambda>w. the (var_value (solve (build_problem wd cs)) (name' w)) * humidity' w) wd)) 5,
               final_sulfur = py_round (0.5 * petcoke_sulfur + sum_list (map (\<lambda>w. the (var_value (solve (build_problem wd cs)) (name' w)) * sulfur w) wd)) 5,
               protocol = ''50/50 Nexus'' \<rparr> \<rparr>"
proof -
  have n: "waste_names (build_problem wd cs) = map name' wd"
    by (simp add: build_problem_def)
  show ?thesis
    unfolding solve_optimal_mix_def Let_def total_of_def n
    by (simp add: value_terms_Some [OF assms])
qed

lemma solve_optimal_mix_None:
  assumes "\<exists>w \<in> set wd. var_value (solve (build_problem wd cs)) (name' w) = None"
  shows "solve_optimal_mix solve wd cs = Inl TypeError"
  using assms
  by (simp add: solve_optimal_mix_def Let_def total_of_def value_terms_None [THEN iffD2])

lemma waste_names_build_problem: "waste_names (build_problem wd cs) = map name' wd"
  by (simp add: build_problem_def)

lemma respects_bounds_iff:
  "respects_bounds (build_problem wd cs) vals \<longleftrightarrow>
     (\<forall>w \<in> set wd. \<exists>v. vals (name' w) = Some v \<and> 0 \<le> v
         \<and> v \<le> (if \<exists>u \<in> set wd. name' u = name' w \<and> get_stock u \<le> 0 then 0 else 0.5))"
proof -
  have n: "waste_names (build_problem wd cs) = map name' wd"
    by (simp add: build_problem_def)
  show ?thesis
    unfolding respects_bounds_def n list_all_iff
    by (auto simp: in_bounds_def waste_vars_build_problem split: option.splits)
qed

lemma protocol_zero_stock:
  assumes w: "w \<in> set wd" and z: "get_stock w \<le> 0" and b: "name' w \<noteq> ''Petcoke (Base)''"
    and r: "respects_bounds (build_problem wd cs) (var_value (solve (build_problem wd cs)))"
  shows "waste_vars (build_problem wd cs) (name' w) = Some \<lparr> lowBound = 0, upBound = 0 \<rparr>
     \<and> (\<exists>r. solve_optimal_mix solve wd cs = Inr r \<and> mix r (name' w) = None)"
proof
  from w z show "waste_vars (build_problem wd cs) (name' w) = Some \<lparr> lowBound = 0, upBound = 0 \<rparr>"
    by (auto simp: waste_vars_build_problem)
next
  let ?vals = "var_value (solve (build_problem wd cs))"
  from r have all: "\<forall>u \<in> set wd. ?vals (name' u) \<noteq> None"
    by (auto simp: respects_bounds_iff)
  from r w obtain v where v: "?vals (name' w) = Some v" "0 \<le> v"
      "v \<le> (if \<exists>u \<in> set wd. name' u = name' w \<and> get_stock u \<le> 0 then 0 else 0.5)"
    unfolding respects_bounds_iff by blast
  from w z have "\<exists>u \<in> set wd. name' u = name' w \<and> get_stock u \<le> 0" by blast
  with v have "?vals (name' w) = Some 0" by simp
  then have "pct_of (?vals (name' w)) = 0"
    by (simp add: pct_of_def)
  with b have "mix_of ?vals (map name' wd) (name' w) = None"
    by (simp add: mix_of_apply)
  then show "\<exists>r. solve_optimal_mix solve wd cs = Inr r \<and> mix r (name' w) = None"
    using all by (simp add: solve_optimal_mix_Some [where solve = solve and wd = wd and cs = cs])
qed


lemma fold_add_stream_totals:
  "total_mass (fold (\<lambda>p. add_stream (fst p) (snd p)) ps t) = total_mass t + sum_list (map snd ps)"
  "total_heat (fold (\<lambda>p. add_stream (fst p) (snd p)) ps t)
     = total_heat t + sum_list (map (\<lambda>p. snd p * pci_value (fst p)) ps)"
  "total_sulfur_mass (fold (\<lambda>p. add_stream (fst p) (snd p)) ps t)
     = total_sulfur_mass t + sum_list (map (\<lambda>p. snd p * sulfur_content (fst p)) ps)"
  "total_chloride_mass (fold (\<lambda>p. add_stream (fst p) (snd p)) ps t)
     = total_chloride_mass t + sum_list (map (\<lambda>p. snd p * chloride_content (fst p)) ps)"
  "total_cost (fold (\<lambda>p. add_stream (fst p) (snd p)) ps t)
     = total_cost t + sum_list (map (\<lambda>p. snd p * cost (fst p)) ps)"
  by (induction ps arbitrary: t; simp add: add_stream_def)+

lemma calculate_optimal_mix_success:
  assumes "res_success (linprog (build_lp ws p))"
    and "length (res_x (linprog (build_lp ws p))) \<le> length ws"
    and "ws \<noteq> []"
  shows "calculate_optimal_mix linprog ws p =
     Inr (Target_Achieved
       (result_mix (fold (\<lambda>p. add_stream (fst p) (snd p))
          (kept ws (res_x (linprog (build_lp ws p)))) totals0))
       (py_round (kept_mass ws (res_x (linprog (build_lp ws p)))) 2)
       (py_round (kept_average pci_value ws (res_x (linprog (build_lp ws p)))) 2)
       (py_round (kept_average sulfur_content ws (res_x (linprog (build_lp ws p)))) 4)
       (py_round (kept_average chloride_content ws (res_x (linprog (build_lp ws p)))) 4)
       (py_round (kept_sum cost ws (res_x (linprog (build_lp ws p)))) 2))"
  using assms
  by (simp add: calculate_optimal_mix_nonempty accumulate_kept report_of_totals_def Let_def
      fold_add_stream_totals totals0_def kept_mass_def kept_sum_def kept_average_def)


lemma py_round_zero: "py_round 0 n = 0"
  by (simp add: py_round_def)

lemma value_terms_of_point:
  "\<forall>w \<in> set wd. vals (name' w) = Some (v (name' w)) \<Longrightarrow>
   value_terms vals (map (\<lambda>w. (name' w, prop w)) wd)
     = Some (sum_list (map (\<lambda>w. v (name' w) * prop w) wd))"
  by (induction wd) auto

lemma value_weighted_terms_of_point:
  "\<forall>w \<in> set wd. vals (name' w) = Some (v (name' w)) \<Longrightarrow>
   value_terms vals (weighted_terms prop wd) = Some (sum_list (map (\<lambda>w. v (name' w) * prop w) wd))"
  unfolding weighted_terms_def
  by (induction wd) auto

lemma weighted_terms_empty: "weighted_terms prop wd = [] \<longleftrightarrow> (\<forall>w \<in> set wd. prop w = 0)"
  unfolding weighted_terms_def
  by (induction wd) auto

lemma value_objective_of_point:
  assumes "\<forall>w \<in> set wd. var_value (solve (build_problem wd cs)) (name' w) = Some (v (name' w))"
  shows "value_objective (var_value (solve (build_problem wd cs))) (objective (build_problem wd cs))
     = (if \<forall>w \<in> set wd. pci w = 0 then None else Some (blend_property petcoke_pci pci v wd))"
proof -
  have o: "objective (build_problem wd cs)
             = \<lparr> const_term = 0.5 * petcoke_pci, var_terms = weighted_terms pci wd \<rparr>"
    by (simp add: build_problem_def)
  show ?thesis
    unfolding value_objective_def value_affine_def o
    by (simp add: weighted_terms_empty blend_property_def
        value_weighted_terms_of_point [of wd _ v, OF assms])
qed

lemma solve_optimal_mix_of_point:
  assumes "\<forall>w \<in> set wd. var_value (solve (build_problem wd cs)) (name' w) = Some (v (name' w))"
  shows "solve_optimal_mix solve wd cs =
     Inr \<lparr> status = LpStatus (sol_status (solve (build_problem wd cs))),
           mix = mix_of (var_value (solve (build_problem wd cs))) (map name' wd),
           objective_value =
             (if \<forall>w \<in> set wd. pci w = 0 then 0
              else py_round (blend_property petcoke_pci pci v wd) 2),
           details =
             \<lparr> final_chlorine = py_round (blend_property petcoke_chlorine chlorine v wd) 5,
               final_humidity = py_round (blend_property petcoke_humidity humidity' v wd) 5,
               final_sulfur = py_round (blend_property petcoke_sulfur sulfur v wd) 5,
               protocol = ''50/50 Nexus'' \<rparr> \<rparr>"
proof -
  let ?vals = "var_value (solve (build_problem wd cs))"
  note vt = value_terms_of_point [of wd ?vals v, OF assms]
  have n: "waste_names (build_problem wd cs) = map name' wd"
    by (simp add: build_problem_def)
  show ?thesis
    unfolding solve_optimal_mix_def Let_def total_of_def n
      value_objective_of_point [where solve = solve and wd = wd and cs = cs and v = v, OF assms]
    by (simp add: vt blend_property_def py_round_zero)
qed

lemma result_mix_fold_origin:
  "result_mix (fold (\<lambda>p. add_stream (fst p) (snd p)) ps t) n = Some q \<Longrightarrow>
   result_mix t n = Some q \<or> (\<exists>p \<in> set ps. name (fst p) = n \<and> q = py_round (snd p) 2)"
proof (induction ps arbitrary: t)
  case Nil
  then show ?case by simp
next
  case (Cons p ps)
  from Cons.prems have "result_mix (fold (\<lambda>p. add_stream (fst p) (snd p)) ps
      (add_stream (fst p) (snd p) t)) n = Some q"
    by simp
  from Cons.IH [OF this] show ?case
    by (auto simp: add_stream_def split: if_splits)
qed

lemma free_mix_entries_have_allocation:
  assumes s: "res_success (linprog (build_lp ws p))"
    and len: "length (res_x (linprog (build_lp ws p))) = length ws"
    and ne: "ws \<noteq> []"
  shows "\<exists>m f a su c k. calculate_optimal_mix linprog ws p = Inr (Target_Achieved m f a su c k)
           \<and> (\<forall>n q. m n = Some q \<longrightarrow>
                 (\<exists>j < length ws. name (ws ! j) = n
                    \<and> 1 / 1000 < res_x (linprog (build_lp ws p)) ! j
                    \<and> q = py_round (res_x (linprog (build_lp ws p)) ! j) 2))"
proof -
  let ?xs = "res_x (linprog (build_lp ws p))"
  let ?m = "result_mix (fold (\<lambda>p. add_stream (fst p) (snd p)) (kept ws ?xs) totals0)"
  have "\<exists>j < length ws. name (ws ! j) = n \<and> 1 / 1000 < ?xs ! j \<and> q = py_round (?xs ! j) 2"
    if "?m n = Some q" for n q
  proof -
    from result_mix_fold_origin [OF that]
    obtain pr where pr: "pr \<in> set (kept ws ?xs)" "name (fst pr) = n" "q = py_round (snd pr) 2"
      by (auto simp: totals0_def)
    from pr(1) have "pr \<in> set (zip ws ?xs)" and big: "1 / 1000 < snd pr"
      by (simp_all add: kept_def)
    then obtain j where "j < length ws" "pr = (ws ! j, ?xs ! j)"
      using len by (auto simp: set_zip)
    with pr big show ?thesis by auto
  qed
  moreover have "calculate_optimal_mix linprog ws p =
     Inr (Target_Achieved ?m (py_round (kept_mass ws ?xs) 2)
       (py_round (kept_average pci_value ws ?xs) 2)
       (py_round (kept_average sulfur_content ws ?xs) 4)
       (py_round (kept_average chloride_content ws ?xs) 4)
       (py_round (kept_sum cost ws ?xs) 2))"
    using calculate_optimal_mix_success [of linprog ws p, OF s _ ne] len by simp
  ultimately show ?thesis by blast
qed

section \<open>Materials without stock\<close>

text \<open>
  C3. A material without stock gets no allocation, in both formulations. In the free
  formulation the bounds of variable \<open>i\<close> are \<open>(0, available_mass)\<close>, so with no stock every
  solver result within the bounds has \<open>x\<^sub>i = 0\<close>; every entry of the reported mix stems
  from a stream whose \<open>x\<^sub>j\<close> exceeds \<open>1e-3\<close>, so the material writes no entry, and (names
  being unique within a request) the reported mix has no entry under its name. In the
  protocol formulation a material whose stock is absent, zero or negative has its variable
  bounded by \<open>[0, 0]\<close>, so with solver values within the bounds the reported mix has no
  entry under its name (the key of the fixed base material apart).
\<close>

theorem zero_stock_gets_no_allocation:
  "(i < length ws \<longrightarrow> lp_bounds (build_lp ws p) ! i = (0, available_mass (ws ! i)))
   \<and> (i < length ws \<and> available_mass (ws ! i) \<le> 0
        \<and> within_bounds (build_lp ws p) (res_x (linprog (build_lp ws p)))
      \<longrightarrow> res_x (linprog (build_lp ws p)) ! i = 0)
   \<and> (ws \<noteq> [] \<and> res_success (linprog (build_lp ws p))
        \<and> length (res_x (linprog (build_lp ws p))) = length ws
      \<longrightarrow> (\<exists>m f a su c k.
             calculate_optimal_mix linprog ws p = Inr (Target_Achieved m f a su c k)
             \<and> (\<forall>n q. m n = Some q \<longrightarrow>
                  (\<exists>j < length ws. name (ws ! j) = n
                     \<and> 1 / 1000 < res_x (linprog (build_lp ws p)) ! j
                     \<and> q = py_round (res_x (linprog (build_lp ws p)) ! j) 2))))
   \<and> (i < length ws \<and> available_mass (ws ! i) \<le> 0 \<and> distinct (map name ws)
        \<and> res_success (linprog (build_lp ws p))
        \<and> within_bounds (build_lp ws p) (res_x (linprog (build_lp ws p)))
      \<longrightarrow> (\<exists>m f a su c k.
             calculate_optimal_mix linprog ws p = Inr (Target_Achieved m f a su c k)
             \<and> m (name (ws ! i)) = None))
   \<and> (w \<in> set wd \<and> get_stock w \<le> 0
      \<longrightarrow> waste_vars (build_problem wd cs) (name' w) = Some \<lparr> lowBound = 0, upBound = 0 \<rparr>)
   \<and> (w \<in> set wd \<and> get_stock w \<le> 0 \<and> name' w \<noteq> ''Petcoke (Base)''
        \<and> respects_bounds (build_problem wd cs) (var_value (solve (build_problem wd cs)))
      \<longrightarrow> (\<exists>r. solve_optimal_mix solve wd cs = Inr r \<and> mix r (name' w) = None))"
proof (intro conjI impI)
  assume "i < length ws"
  then show "lp_bounds (build_lp ws p) ! i = (0, available_mass (ws ! i))"
    by (simp add: build_lp_def)
next
  assume "i < length ws \<and> available_mass (ws ! i) \<le> 0
        \<and> within_bounds (build_lp ws p) (res_x (linprog (build_lp ws p)))"
  then show "res_x (linprog (build_lp ws p)) ! i = 0"
    by (fastforce simp: within_bounds_build_lp)
next
  assume "ws \<noteq> [] \<and> res_success (linprog (build_lp ws p))
        \<and> length (res_x (linprog (build_lp ws p))) = length ws"
  then show "\<exists>m f a su c k.
             calculate_optimal_mix linprog ws p = Inr (Target_Achieved m f a su c k)
             \<and> (\<forall>n q. m n = Some q \<longrightarrow>
                  (\<exists>j < length ws. name (ws ! j) = n
                     \<and> 1 / 1000 < res_x (linprog (build_lp ws p)) ! j
                     \<and> q = py_round (res_x (linprog (build_lp ws p)) ! j) 2))"
    using free_mix_entries_have_allocation [of linprog ws p] by blast
next
  assume "i < length ws \<and> available_mass (ws ! i) \<le> 0 \<and> distinct (map name ws)
        \<and> res_success (linprog (build_lp ws p))
        \<and> within_bounds (build_lp ws p) (res_x (linprog (build_lp ws p)))"
  then show "\<exists>m f a su c k.
             calculate_optimal_mix linprog ws p = Inr (Target_Achieved m f a su c k)
             \<and> m (name (ws ! i)) = None"
    using free_zero_stock [of i ws linprog p] by blast
next
  assume "w \<in> set wd \<and> get_stock w \<le> 0"
  then show "waste_vars (build_problem wd cs) (name' w) = Some \<lparr> lowBound = 0, upBound = 0 \<rparr>"
    by (auto simp: waste_vars_build_problem)
next
  assume "w \<in> set wd \<and> get_stock w \<le> 0 \<and> name' w \<noteq> ''Petcoke (Base)''
        \<and> respects_bounds (build_problem wd cs) (var_value (solve (build_problem wd cs)))"
  then show "\<exists>r. solve_optimal_mix solve wd cs = Inr r \<and> mix r (name' w) = None"
    using protocol_zero_stock [of w wd cs solve] by blast
qed

text \<open>The sample data of both modules with the tires out of stock.\<close>

theorem zero_stock_gets_no_allocation_witness:
  "lp_bounds (build_lp streams_tires_exhausted sample_params) ! 0 = (0, 0)
   \<and> res_x (linprog_success [0, 10, 2, 0] (build_lp streams_tires_exhausted sample_params)) ! 0 = 0
   \<and> (\<exists>m f a su c k.
        calculate_optimal_mix (linprog_success [0, 10, 2, 0]) streams_tires_exhausted sample_params
          = Inr (Target_Achieved m f a su c k) \<and> m ''Tires'' = None)
   \<and> waste_vars (build_problem waste_data_tires_exhausted sample_constraints) ''Waste A (Tires)''
        = Some \<lparr> lowBound = 0, upBound = 0 \<rparr>
   \<and> (\<exists>r. solve_optimal_mix
             (pulp_solution Optimal
                [(''Waste A (Tires)'', 0), (''Waste B (Wood)'', 0.5), (''Waste C (Sludge)'', 0)])
             waste_data_tires_exhausted sample_constraints = Inr r
          \<and> mix r ''Waste A (Tires)'' = None)"
proof -
  let ?ws = streams_tires_exhausted and ?lin = "linprog_success [0, 10, 2, 0]"
  let ?wd = waste_data_tires_exhausted
  let ?solve = "pulp_solution Optimal
                [(''Waste A (Tires)'', 0), (''Waste B (Wood)'', 0.5), (''Waste C (Sludge)'', 0)]"
  let ?w = "hd waste_data_tires_exhausted"
  have h1: "0 < length ?ws" "available_mass (?ws ! 0) \<le> 0" "distinct (map name ?ws)"
    "name (?ws ! 0) = ''Tires''" "available_mass (?ws ! 0) = 0"
    by (simp_all add: streams_tires_exhausted_def streams_def)
  have h2: "within_bounds (build_lp ?ws sample_params) (res_x (?lin (build_lp ?ws sample_params)))"
    by (simp add: within_bounds_def build_lp_def linprog_success_def streams_tires_exhausted_def
        streams_def)
  have h3: "res_success (?lin (build_lp ?ws sample_params))"
    by (simp add: linprog_success_def)
  have h4: "?w \<in> set ?wd" "get_stock ?w \<le> 0" "name' ?w \<noteq> ''Petcoke (Base)''"
    "name' ?w = ''Waste A (Tires)''"
    by (simp_all add: waste_data_tires_exhausted_def sample_waste_data_def get_stock_def)
  have h5: "respects_bounds (build_problem ?wd sample_constraints)
              (var_value (?solve (build_problem ?wd sample_constraints)))"
    by (simp add: respects_bounds_def in_bounds_def waste_vars_build_problem pulp_solution_def
        waste_data_tires_exhausted_def sample_waste_data_def get_stock_def
        waste_names_build_problem)
  from h1 h2 h3 h4 h5
    zero_stock_gets_no_allocation [where i = 0 and ws = ?ws and p = sample_params and linprog = ?lin and w = ?w
        and wd = ?wd and cs = sample_constraints and solve = ?solve]
  show ?thesis
    by simp
qed

section \<open>The derived properties of a result\<close>




text \<open>The solver result of that example is the optimum of the problem the code builds.\<close>

lemma small_solution_is_optimal:
  "within_bounds (build_lp small_streams small_params) [0.014, 0.006]
   \<and> satisfies_ub (build_lp small_streams small_params) [0.014, 0.006]
   \<and> (\<forall>ys. within_bounds (build_lp small_streams small_params) ys \<longrightarrow>
         dot (lp_c (build_lp small_streams small_params)) [0.014, 0.006]
           \<le> dot (lp_c (build_lp small_streams small_params)) ys)"
proof (intro conjI allI impI)
  show "within_bounds (build_lp small_streams small_params) [0.014, 0.006]"
    by (simp add: within_bounds_def build_lp_def small_streams_def)
  show "satisfies_ub (build_lp small_streams small_params) [0.014, 0.006]"
    by (simp add: satisfies_ub_def build_lp_def small_streams_def small_params_def dot_def)
  fix ys assume "within_bounds (build_lp small_streams small_params) ys"
  then obtain a b where ys: "ys = [a, b]" and ab: "a \<le> 0.014" "b \<le> 0.006"
    by (auto simp: within_bounds_def build_lp_def small_streams_def list_all2_Cons1)
  then show "dot (lp_c (build_lp small_streams small_params)) [0.014, 0.006]
           \<le> dot (lp_c (build_lp small_streams small_params)) ys"
    by (simp add: build_lp_def small_streams_def dot_def)
qed

text \<open>
  An objective without a variable term: for a single material without calorific value the
  optimal solve gives it the whole waste share, the objective expression has no value, and
  the reported calorific value is 0 although the blend has that of the fixed half, 4100.
\<close>

lemma objective_without_variable_term:
  "solve_optimal_mix (pulp_solution Optimal [(''Ash'', 0.5)]) [inert_material] no_limits
     = Inr \<lparr> status = ''Optimal'', mix = [''Petcoke (Base)'' \<mapsto> 50, ''Ash'' \<mapsto> 50],
             objective_value = 0,
             details = \<lparr> final_chlorine = 0.00525, final_humidity = 0.03, final_sulfur = 0.07,
                         protocol = ''50/50 Nexus'' \<rparr> \<rparr>
   \<and> blend_property petcoke_pci pci (\<lambda>n. 0.5) [inert_material] = 4100"
  by (simp add: solve_optimal_mix_def Let_def build_problem_def pulp_solution_def
      inert_material_def weighted_terms_def total_of_def value_objective_def mix_of_def
      add_pct_def pct_of_def py_round_def blend_property_def petcoke_pci_def
      petcoke_chlorine_def petcoke_humidity_def petcoke_sulfur_def)

section \<open>Solver failures\<close>

lemma calculate_optimal_mix_failure:
  "ws \<noteq> [] \<Longrightarrow> \<not> res_success (linprog (build_lp ws p)) \<Longrightarrow>
   calculate_optimal_mix linprog ws p = Inr (Optimization_Failed (res_message (linprog (build_lp ws p))))"
  by (simp add: calculate_optimal_mix_nonempty)

lemma LpStatus_inj: "LpStatus s = LpStatus s' \<longleftrightarrow> s = s'"
  by (cases s; cases s'; simp)

lemma closed_params_infeasible:
  "\<not> (within_bounds (build_lp streams closed_params) xs
        \<and> satisfies_ub (build_lp streams closed_params) xs)"
proof
  assume a: "within_bounds (build_lp streams closed_params) xs
        \<and> satisfies_ub (build_lp streams closed_params) xs"
  then have len: "length xs = length streams" and nn: "\<forall>i < length streams. 0 \<le> xs ! i"
    by (simp_all add: within_bounds_build_lp)
  then have "\<forall>x \<in> set xs. 0 \<le> x"
    by (metis in_set_conv_nth)
  then have "0 \<le> sum_list xs" by (simp add: sum_list_nonneg)
  moreover from a len have "sum_list xs \<le> - 1"
    by (simp add: satisfies_ub_build_lp closed_params_def)
  ultimately show False by simp
qed

lemma unreachable_pci_infeasible:
  "\<not> feasible (build_problem sample_waste_data unreachable_pci) v"
proof
  assume f: "feasible (build_problem sample_waste_data unreachable_pci) v"
  from feasible_fractions [OF f]
  have "v ''Waste A (Tires)'' + v ''Waste B (Wood)'' + v ''Waste C (Sludge)'' = 0.5"
    and "0 \<le> v ''Waste A (Tires)''" "0 \<le> v ''Waste B (Wood)''" "0 \<le> v ''Waste C (Sludge)''"
    by (simp_all add: sample_waste_data_def)
  moreover from f have "9000 \<le> 4100 + (v ''Waste A (Tires)'' * 8000 + (v ''Waste B (Wood)'' * 4000
      + v ''Waste C (Sludge)'' * 1000))"
    by (simp add: feasible_def build_problem_def quality_constraints_def unreachable_pci_def
        no_limits_def holds_def eval_affine_def weighted_terms_def sample_waste_data_def
        petcoke_pci_def)
  ultimately show False by linarith
qed

lemma mix_of_nonempty: "mix_of vals names ''Petcoke (Base)'' \<noteq> None"
  by (simp add: mix_of_apply)

lemma unreachable_pci_result:
  "solve_optimal_mix (pulp_solution Infeasible all_zero) sample_waste_data unreachable_pci
     = Inr infeasible_result"
  by (simp add: solve_optimal_mix_def Let_def build_problem_def pulp_solution_def all_zero_def
      sample_waste_data_def weighted_terms_def total_of_def value_objective_def
      value_affine_def mix_of_def
      add_pct_def pct_of_def infeasible_result_def py_round_def petcoke_pci_def
      petcoke_chlorine_def petcoke_humidity_def petcoke_sulfur_def)

text \<open>
  C5, as the code has it. The protocol formulation reports the solver's status by its
  name, so an optimal, an infeasible, an unbounded, an undefined and an unsolved outcome
  get pairwise distinct status values and only an optimal solve is reported as
  \<open>Optimal\<close>. The free formulation reports \<open>Target Achieved\<close> exactly when the solver
  reports success; every failure, whatever its kind, gets the one status
  \<open>Optimization Failed\<close>, with the solver's message copied into \<open>reason\<close> (the stream
  list not being empty, so that the solver accepts the problem).
\<close>

theorem status_follows_solver_outcome:
  "((\<forall>w \<in> set wd. var_value (solve (build_problem wd cs)) (name' w) \<noteq> None) \<longrightarrow>
      (\<exists>r. solve_optimal_mix solve wd cs = Inr r
          \<and> status r = LpStatus (sol_status (solve (build_problem wd cs)))
          \<and> (status r = ''Optimal'' \<longleftrightarrow> sol_status (solve (build_problem wd cs)) = Optimal)))
   \<and> (LpStatus s = LpStatus s' \<longleftrightarrow> s = s')
   \<and> (ws \<noteq> [] \<and> \<not> res_success (linprog (build_lp ws p)) \<longrightarrow>
        calculate_optimal_mix linprog ws p
          = Inr (Optimization_Failed (res_message (linprog (build_lp ws p)))))
   \<and> (calculate_optimal_mix linprog ws p = Inr rep \<longrightarrow>
        (report_status rep = ''Target Achieved'' \<longleftrightarrow> res_success (linprog (build_lp ws p)))
        \<and> (report_status rep = ''Optimization Failed'' \<longleftrightarrow> \<not> res_success (linprog (build_lp ws p))))"
proof (intro conjI impI)
  assume a: "\<forall>w \<in> set wd. var_value (solve (build_problem wd cs)) (name' w) \<noteq> None"
  have "LpStatus (sol_status (solve (build_problem wd cs))) = ''Optimal''
        \<longleftrightarrow> sol_status (solve (build_problem wd cs)) = Optimal"
    using LpStatus_inj [of _ Optimal] by simp
  then show "\<exists>r. solve_optimal_mix solve wd cs = Inr r
          \<and> status r = LpStatus (sol_status (solve (build_problem wd cs)))
          \<and> (status r = ''Optimal'' \<longleftrightarrow> sol_status (solve (build_problem wd cs)) = Optimal)"
    using a by (simp add: solve_optimal_mix_Some [where solve = solve and wd = wd and cs = cs])
next
  show "LpStatus s = LpStatus s' \<longleftrightarrow> s = s'" by (rule LpStatus_inj)
next
  assume "ws \<noteq> [] \<and> \<not> res_success (linprog (build_lp ws p))"
  then show "calculate_optimal_mix linprog ws p
          = Inr (Optimization_Failed (res_message (linprog (build_lp ws p))))"
    by (simp add: calculate_optimal_mix_failure)
next
  assume "calculate_optimal_mix linprog ws p = Inr rep"
  then show "report_status rep = ''Target Achieved'' \<longleftrightarrow> res_success (linprog (build_lp ws p))"
    by (auto simp: calculate_optimal_mix_def linprog_call_def report_of_totals_def
        split: if_splits sum.splits)
next
  assume "calculate_optimal_mix linprog ws p = Inr rep"
  then show "report_status rep = ''Optimization Failed'' \<longleftrightarrow> \<not> res_success (linprog (build_lp ws p))"
    by (auto simp: calculate_optimal_mix_def linprog_call_def report_of_totals_def
        split: if_splits sum.splits)
qed

text \<open>
  C5 as stated fails in the free formulation: a request without a feasible point, reported
  infeasible by the solver, and the sample request with a numerical failure of the solver
  get the same status.
\<close>

theorem free_formulation_shares_failure_status:
  "calculate_optimal_mix (linprog_failure 2 ''The problem is infeasible.'') streams closed_params
     = Inr (Optimization_Failed ''The problem is infeasible.'')
   \<and> calculate_optimal_mix (linprog_failure 4 ''Numerical difficulties encountered.'') streams
        sample_params
     = Inr (Optimization_Failed ''Numerical difficulties encountered.'')
   \<and> report_status (Optimization_Failed ''The problem is infeasible.'')
     = report_status (Optimization_Failed ''Numerical difficulties encountered.'')"
  by (simp add: calculate_optimal_mix_nonempty linprog_failure_def streams_def)

text \<open>The infeasible sample requests of both modules.\<close>

theorem status_follows_solver_outcome_witness:
  "(\<exists>r. solve_optimal_mix (pulp_solution Infeasible all_zero) sample_waste_data unreachable_pci = Inr r
        \<and> status r = ''Infeasible'' \<and> status r \<noteq> ''Optimal'')
   \<and> LpStatus Infeasible \<noteq> LpStatus Unbounded
   \<and> calculate_optimal_mix (linprog_failure 2 ''The problem is infeasible.'') streams closed_params
        = Inr (Optimization_Failed ''The problem is infeasible.'')
   \<and> report_status (Optimization_Failed ''The problem is infeasible.'') = ''Optimization Failed''"
proof -
  let ?solve = "pulp_solution Infeasible all_zero" and ?lin = "linprog_failure 2 ''The problem is infeasible.''"
  have h: "\<forall>w \<in> set sample_waste_data.
      var_value (?solve (build_problem sample_waste_data unreachable_pci)) (name' w) \<noteq> None"
    "sol_status (?solve (build_problem sample_waste_data unreachable_pci)) = Infeasible"
    by (simp_all add: pulp_solution_def all_zero_def sample_waste_data_def)
  have g: "\<not> res_success (?lin (build_lp streams closed_params))"
    "res_message (?lin (build_lp streams closed_params)) = ''The problem is infeasible.''"
    "streams \<noteq> []"
    by (simp_all add: linprog_failure_def streams_def)
  from h g status_follows_solver_outcome [where solve = ?solve and wd = sample_waste_data and cs = unreachable_pci
      and s = Infeasible and s' = Unbounded and linprog = ?lin and ws = streams
      and p = closed_params and rep = "Optimization_Failed ''The problem is infeasible.''"]
  show ?thesis by simp
qed

text \<open>
  C6, as the code has it. When the solver reports failure on a list of streams that is
  not empty, the free formulation returns normally with the status \<open>Optimization Failed\<close>, the solver's message as reason and no
  allocation mapping at all. When the solver reports an infeasible problem and has left a
  value on every variable, the protocol formulation returns normally with the status
  \<open>Infeasible\<close>, and its mix is built as for any other status: it is never empty, it holds
  the fixed entry \<open>Petcoke (Base)\<close> (at 50.0 unless a waste of that name overwrites it) and
  every waste whose value rounds to a positive percentage.
\<close>

theorem infeasible_request_result:
  "(ws \<noteq> [] \<and> \<not> res_success (linprog (build_lp ws p)) \<longrightarrow>
      calculate_optimal_mix linprog ws p
        = Inr (Optimization_Failed (res_message (linprog (build_lp ws p)))))
   \<and> (sol_status (solve (build_problem wd cs)) = Infeasible
        \<and> (\<forall>w \<in> set wd. var_value (solve (build_problem wd cs)) (name' w) \<noteq> None) \<longrightarrow>
       (\<exists>r. solve_optimal_mix solve wd cs = Inr r
          \<and> status r = ''Infeasible''
          \<and> mix r = mix_of (var_value (solve (build_problem wd cs))) (map name' wd)
          \<and> mix r ''Petcoke (Base)'' \<noteq> None
          \<and> (''Petcoke (Base)'' \<notin> set (map name' wd) \<longrightarrow> mix r ''Petcoke (Base)'' = Some 50)))"
proof (intro conjI impI)
  assume "ws \<noteq> [] \<and> \<not> res_success (linprog (build_lp ws p))"
  then show "calculate_optimal_mix linprog ws p
          = Inr (Optimization_Failed (res_message (linprog (build_lp ws p))))"
    by (simp add: calculate_optimal_mix_failure)
next
  assume a: "sol_status (solve (build_problem wd cs)) = Infeasible
        \<and> (\<forall>w \<in> set wd. var_value (solve (build_problem wd cs)) (name' w) \<noteq> None)"
  then have all: "\<forall>w \<in> set wd. var_value (solve (build_problem wd cs)) (name' w) \<noteq> None"
    and st: "sol_status (solve (build_problem wd cs)) = Infeasible"
    by simp_all
  show "\<exists>r. solve_optimal_mix solve wd cs = Inr r
          \<and> status r = ''Infeasible''
          \<and> mix r = mix_of (var_value (solve (build_problem wd cs))) (map name' wd)
          \<and> mix r ''Petcoke (Base)'' \<noteq> None
          \<and> (''Petcoke (Base)'' \<notin> set (map name' wd) \<longrightarrow> mix r ''Petcoke (Base)'' = Some 50)"
    using all st
    by (simp add: solve_optimal_mix_Some [where solve = solve and wd = wd and cs = cs]
        mix_of_apply)
qed

text \<open>
  C6 as stated fails: for the sample waste data with a minimum calorific value of 9000,
  which no blend reaches, the reported mix still holds the fixed base material; and the
  free formulation reports an infeasible request as \<open>Optimization Failed\<close>.
\<close>

theorem infeasible_result_keeps_base_allocation:
  "solve_optimal_mix (pulp_solution Infeasible all_zero) sample_waste_data unreachable_pci
     = Inr infeasible_result
   \<and> status infeasible_result = ''Infeasible''
   \<and> mix infeasible_result ''Petcoke (Base)'' = Some 50
   \<and> mix infeasible_result \<noteq> Map.empty
   \<and> calculate_optimal_mix (linprog_failure 2 ''The problem is infeasible.'') streams closed_params
        = Inr (Optimization_Failed ''The problem is infeasible.'')
   \<and> report_status (Optimization_Failed ''The problem is infeasible.'') \<noteq> ''Infeasible''"
proof -
  note unreachable_pci_result
  moreover have "mix infeasible_result \<noteq> Map.empty"
    by (simp add: infeasible_result_def)
  ultimately show ?thesis
    by (simp add: infeasible_result_def calculate_optimal_mix_nonempty linprog_failure_def
        streams_def)
qed

text \<open>The same two requests, through the theorem.\<close>

theorem infeasible_request_result_witness:
  "calculate_optimal_mix (linprog_failure 2 ''The problem is infeasible.'') streams closed_params
        = Inr (Optimization_Failed ''The problem is infeasible.'')
   \<and> (\<exists>r. solve_optimal_mix (pulp_solution Infeasible all_zero) sample_waste_data unreachable_pci
            = Inr r
        \<and> status r = ''Infeasible'' \<and> mix r ''Petcoke (Base)'' = Some 50)"
proof -
  let ?solve = "pulp_solution Infeasible all_zero" and ?lin = "linprog_failure 2 ''The problem is infeasible.''"
  have h: "\<forall>w \<in> set sample_waste_data.
      var_value (?solve (build_problem sample_waste_data unreachable_pci)) (name' w) \<noteq> None"
    "sol_status (?solve (build_problem sample_waste_data unreachable_pci)) = Infeasible"
    "''Petcoke (Base)'' \<notin> set (map name' sample_waste_data)"
    by (simp_all add: pulp_solution_def all_zero_def sample_waste_data_def)
  have g: "\<not> res_success (?lin (build_lp streams closed_params))"
    "res_message (?lin (build_lp streams closed_params)) = ''The problem is infeasible.''"
    "streams \<noteq> []"
    by (simp_all add: linprog_failure_def streams_def)
  from h g infeasible_request_result [where solve = ?solve and wd = sample_waste_data and cs = unreachable_pci
      and linprog = ?lin and ws = streams and p = closed_params]
  show ?thesis by auto
qed

section \<open>Validation of the input\<close>

lemma post_init_cases:
  "post_init w =
     (if pci_value w < 0 then Inl (ValueError ''PCI value cannot be negative'')
      else if available_mass w < 0 then Inl (ValueError ''Available mass cannot be negative'')
      else Inr w)"
  by (simp add: post_init_def)

lemma construct_streams_valid:
  "\<forall>w \<in> set raw. 0 \<le> pci_value w \<and> 0 \<le> available_mass w \<Longrightarrow> construct_streams raw = Inr raw"
  by (induction raw) (simp_all add: post_init_def)

lemma construct_streams_invalid:
  "\<exists>w \<in> set raw. pci_value w < 0 \<or> available_mass w < 0 \<Longrightarrow>
   \<exists>msg. construct_streams raw = Inl (ValueError msg)"
proof (induction raw)
  case Nil
  then show ?case by simp
next
  case (Cons s ss)
  show ?case
  proof (cases "pci_value s < 0 \<or> available_mass s < 0")
    case True
    then show ?thesis by (auto simp: post_init_def)
  next
    case False
    with Cons.prems have "\<exists>w \<in> set ss. pci_value w < 0 \<or> available_mass w < 0" by auto
    from Cons.IH [OF this] obtain msg where "construct_streams ss = Inl (ValueError msg)" ..
    with False show ?thesis by (simp add: post_init_def)
  qed
qed

text \<open>
  C7, as the code has it. Constructing a stream with a negative calorific value or a
  negative available mass raises \<open>ValueError\<close>, the calorific value being checked first; a
  stream that passes is stored unchanged. A request with such a stream ends with that
  error whatever the solver would have answered, that is before any problem is built.
  Names are not looked at: every list of streams that pass the two checks is accepted as
  it is and optimised.
\<close>

theorem stream_validation_checks_values_only:
  "(pci_value w < 0 \<longrightarrow> post_init w = Inl (ValueError ''PCI value cannot be negative''))
   \<and> (0 \<le> pci_value w \<and> available_mass w < 0 \<longrightarrow>
        post_init w = Inl (ValueError ''Available mass cannot be negative''))
   \<and> (0 \<le> pci_value w \<and> 0 \<le> available_mass w \<longrightarrow> post_init w = Inr w)
   \<and> ((\<exists>s \<in> set raw. pci_value s < 0 \<or> available_mass s < 0) \<longrightarrow>
        (\<exists>msg. construct_streams raw = Inl (ValueError msg)
              \<and> (\<forall>linprog. optimize_fuel_mix linprog raw p = Inl (ValueError msg))))
   \<and> ((\<forall>s \<in> set raw. 0 \<le> pci_value s \<and> 0 \<le> available_mass s) \<longrightarrow>
        construct_streams raw = Inr raw
        \<and> optimize_fuel_mix linprog raw p = calculate_optimal_mix linprog raw p)"
proof (intro conjI impI)
  assume "\<exists>s \<in> set raw. pci_value s < 0 \<or> available_mass s < 0"
  from construct_streams_invalid [OF this]
  obtain msg where "construct_streams raw = Inl (ValueError msg)" ..
  then show "\<exists>msg. construct_streams raw = Inl (ValueError msg)
              \<and> (\<forall>linprog. optimize_fuel_mix linprog raw p = Inl (ValueError msg))"
    by (simp add: optimize_fuel_mix_def)
next
  assume a: "\<forall>s \<in> set raw. 0 \<le> pci_value s \<and> 0 \<le> available_mass s"
  from construct_streams_valid [OF a] show "construct_streams raw = Inr raw" .
  from construct_streams_valid [OF a]
  show "optimize_fuel_mix linprog raw p = calculate_optimal_mix linprog raw p"
    by (simp add: optimize_fuel_mix_def)
qed (simp_all add: post_init_def)

text \<open>
  C7 as stated fails for duplicate names: a request naming the same stream twice is
  constructed and optimised, and the second entry overwrites the first in the reported mix
  (5 t reported under the name, 15 t in total).
\<close>

theorem duplicate_names_are_accepted:
  "\<not> distinct (map name duplicate_streams)
   \<and> construct_streams duplicate_streams = Inr duplicate_streams
   \<and> optimize_fuel_mix (linprog_success [10, 5]) duplicate_streams sample_params
       = Inr duplicate_report"
  by (simp add: duplicate_streams_def streams_def post_init_def optimize_fuel_mix_def
      calculate_optimal_mix_def linprog_call_def build_lp_def linprog_success_def totals0_def
      add_stream_def
      report_of_totals_def duplicate_report_def py_round_def Let_def sample_params_def)

text \<open>The solver result of that example is an optimum of the problem the code builds.\<close>

lemma duplicate_solution_is_optimal:
  "within_bounds (build_lp duplicate_streams sample_params) [10, 5]
   \<and> satisfies_ub (build_lp duplicate_streams sample_params) [10, 5]
   \<and> (\<forall>ys. within_bounds (build_lp duplicate_streams sample_params) ys
            \<and> satisfies_ub (build_lp duplicate_streams sample_params) ys \<longrightarrow>
         dot (lp_c (build_lp duplicate_streams sample_params)) [10, 5]
           \<le> dot (lp_c (build_lp duplicate_streams sample_params)) ys)"
proof (intro conjI allI impI)
  show "within_bounds (build_lp duplicate_streams sample_params) [10, 5]"
    by (simp add: within_bounds_def build_lp_def duplicate_streams_def streams_def)
  show "satisfies_ub (build_lp duplicate_streams sample_params) [10, 5]"
    by (simp add: satisfies_ub_def build_lp_def duplicate_streams_def streams_def
        sample_params_def dot_def)
  fix ys assume a: "within_bounds (build_lp duplicate_streams sample_params) ys
            \<and> satisfies_ub (build_lp duplicate_streams sample_params) ys"
  then obtain a b where ys: "ys = [a, b]"
    by (auto simp: within_bounds_def build_lp_def duplicate_streams_def list_all2_Cons1)
  with a have "a + b \<le> 15"
    by (simp add: satisfies_ub_def build_lp_def duplicate_streams_def sample_params_def dot_def)
  with ys show "dot (lp_c (build_lp duplicate_streams sample_params)) [10, 5]
           \<le> dot (lp_c (build_lp duplicate_streams sample_params)) ys"
    by (simp add: build_lp_def duplicate_streams_def streams_def dot_def)
qed

text \<open>The sample streams, as they are and with one value made negative.\<close>

theorem stream_validation_checks_values_only_witness:
  "post_init ((streams ! 0)\<lparr>pci_value := - 1\<rparr>) = Inl (ValueError ''PCI value cannot be negative'')
   \<and> post_init ((streams ! 0)\<lparr>available_mass := - 1\<rparr>)
        = Inl (ValueError ''Available mass cannot be negative'')
   \<and> post_init (streams ! 0) = Inr (streams ! 0)
   \<and> (\<exists>msg. construct_streams [streams ! 0, (streams ! 1)\<lparr>available_mass := - 1\<rparr>]
               = Inl (ValueError msg)
          \<and> optimize_fuel_mix (linprog_success [0, 0])
               [streams ! 0, (streams ! 1)\<lparr>available_mass := - 1\<rparr>] sample_params
               = Inl (ValueError msg))
   \<and> construct_streams streams = Inr streams
   \<and> optimize_fuel_mix (linprog_success [3, 5, 7, 0]) streams sample_params
        = calculate_optimal_mix (linprog_success [3, 5, 7, 0]) streams sample_params"
proof -
  have v: "\<forall>s \<in> set streams. 0 \<le> pci_value s \<and> 0 \<le> available_mass s"
    by (simp add: streams_def)
  have i: "\<exists>s \<in> set [streams ! 0, (streams ! 1)\<lparr>available_mass := - 1\<rparr>].
             pci_value s < 0 \<or> available_mass s < 0"
    by (simp add: streams_def)
  have a: "pci_value ((streams ! 0)\<lparr>pci_value := - 1\<rparr>) < 0"
    "0 \<le> pci_value ((streams ! 0)\<lparr>available_mass := - 1\<rparr>)
       \<and> available_mass ((streams ! 0)\<lparr>available_mass := - 1\<rparr>) < 0"
    "0 \<le> pci_value (streams ! 0) \<and> 0 \<le> available_mass (streams ! 0)"
    by (simp_all add: streams_def)
  from a(1) stream_validation_checks_values_only [where w = "(streams ! 0)\<lparr>pci_value := - 1\<rparr>" and raw = streams
      and p = sample_params and linprog = "linprog_success [3, 5, 7, 0]"] v
  have 1: "post_init ((streams ! 0)\<lparr>pci_value := - 1\<rparr>) = Inl (ValueError ''PCI value cannot be negative'')"
    and 5: "construct_streams streams = Inr streams"
       "optimize_fuel_mix (linprog_success [3, 5, 7, 0]) streams sample_params
        = calculate_optimal_mix (linprog_success [3, 5, 7, 0]) streams sample_params"
    by blast+
  from a(2) stream_validation_checks_values_only [where w = "(streams ! 0)\<lparr>available_mass := - 1\<rparr>"
      and raw = "[streams ! 0, (streams ! 1)\<lparr>available_mass := - 1\<rparr>]"
      and p = sample_params] i
  have 2: "post_init ((streams ! 0)\<lparr>available_mass := - 1\<rparr>)
        = Inl (ValueError ''Available mass cannot be negative'')"
    and 4: "\<exists>msg. construct_streams [streams ! 0, (streams ! 1)\<lparr>available_mass := - 1\<rparr>]
               = Inl (ValueError msg)
          \<and> optimize_fuel_mix (linprog_success [0, 0])
               [streams ! 0, (streams ! 1)\<lparr>available_mass := - 1\<rparr>] sample_params
               = Inl (ValueError msg)"
    by blast+
  from a(3) stream_validation_checks_values_only [where w = "streams ! 0"]
  have 3: "post_init (streams ! 0) = Inr (streams ! 0)" by blast
  from 1 2 3 4 5 show ?thesis by blast
qed

section \<open>The fixed-ratio test with two materials\<close>

lemma two_material_feasible:
  assumes "name' a = ''A''" "name' b = ''B''" "0 < get_stock a" "0 < get_stock b"
  shows "feasible (build_problem [a, b] no_limits) v \<longleftrightarrow>
     v ''A'' + v ''B'' = 0.5 \<and> 0 \<le> v ''A'' \<and> v ''A'' \<le> 0.5 \<and> 0 \<le> v ''B'' \<and> v ''B'' \<le> 0.5"
  using assms
  by (simp add: feasible_def in_bounds_def waste_vars_build_problem waste_names_build_problem
      constraints_build_problem quality_constraints_def no_limits_def holds_mass_balance)

lemma two_material_objective:
  assumes "name' a = ''A''" "name' b = ''B''" "pci a = 8000" "pci b = 4000"
  shows "eval_affine (objective (build_problem [a, b] cs)) v = 4100 + 8000 * v ''A'' + 4000 * v ''B''"
  using assms by (simp add: objective_build_problem blend_property_def petcoke_pci_def)

lemma two_material_optimum:
  assumes n: "name' a = ''A''" "name' b = ''B''" and s: "0 < get_stock a" "0 < get_stock b"
    and c: "pci a = 8000" "pci b = 4000"
  shows "is_optimum (build_problem [a, b] no_limits) v \<longleftrightarrow> v ''A'' = 0.5 \<and> v ''B'' = 0"
proof
  assume o: "is_optimum (build_problem [a, b] no_limits) v"
  have "feasible (build_problem [a, b] no_limits) (\<lambda>n. if n = ''A'' then 0.5 else 0)"
    by (simp add: two_material_feasible [OF n s])
  with o have "eval_affine (objective (build_problem [a, b] no_limits)) (\<lambda>n. if n = ''A'' then 0.5 else 0)
      \<le> eval_affine (objective (build_problem [a, b] no_limits)) v"
    unfolding is_optimum_def by blast
  then have "8100 \<le> 4100 + 8000 * v ''A'' + 4000 * v ''B''"
    by (simp add: two_material_objective [OF n c])
  moreover from o have "v ''A'' + v ''B'' = 0.5 \<and> 0 \<le> v ''A'' \<and> v ''A'' \<le> 0.5 \<and> 0 \<le> v ''B''"
    by (simp add: is_optimum_def two_material_feasible [OF n s])
  ultimately show "v ''A'' = 0.5 \<and> v ''B'' = 0" by auto
next
  assume v: "v ''A'' = 0.5 \<and> v ''B'' = 0"
  show "is_optimum (build_problem [a, b] no_limits) v"
    unfolding is_optimum_def
  proof (intro conjI allI impI)
    from v show "feasible (build_problem [a, b] no_limits) v"
      by (simp add: two_material_feasible [OF n s])
    fix u assume "feasible (build_problem [a, b] no_limits) u"
    then have "u ''A'' + u ''B'' = 0.5 \<and> 0 \<le> u ''A'' \<and> u ''A'' \<le> 0.5 \<and> 0 \<le> u ''B''"
      by (simp add: two_material_feasible [OF n s])
    then have "4100 + 8000 * u ''A'' + 4000 * u ''B'' \<le> 8100" by auto
    with v show "eval_affine (objective (build_problem [a, b] no_limits)) u
        \<le> eval_affine (objective (build_problem [a, b] no_limits)) v"
      by (simp add: two_material_objective [OF n c])
  qed
qed

text \<open>
  C8. In the protocol formulation, for two materials A (calorific value 8000) and
  B (calorific value 4000), both in stock, and no limits configured, the problem the code
  builds has exactly one optimum: the whole waste share of 0.5 for A and nothing for B.
  When the solver returns it, the result has status \<open>Optimal\<close>, reports 50.0 for the fixed
  base and 50.0 for A, has no entry for B, and the objective value 8100.
\<close>

theorem highest_calorific_material_takes_waste_share:
  assumes "name' a = ''A''" "name' b = ''B''" and "0 < get_stock a" "0 < get_stock b"
    and "pci a = 8000" "pci b = 4000"
  shows "(is_optimum (build_problem [a, b] no_limits) v \<longleftrightarrow> v ''A'' = 0.5 \<and> v ''B'' = 0)
    \<and> (is_optimum (build_problem [a, b] no_limits) v
        \<and> var_value (solve (build_problem [a, b] no_limits)) ''A'' = Some (v ''A'')
        \<and> var_value (solve (build_problem [a, b] no_limits)) ''B'' = Some (v ''B'')
        \<and> sol_status (solve (build_problem [a, b] no_limits)) = Optimal \<longrightarrow>
       (\<exists>r. solve_optimal_mix solve [a, b] no_limits = Inr r
          \<and> status r = ''Optimal''
          \<and> mix r = [''Petcoke (Base)'' \<mapsto> 50, ''A'' \<mapsto> 50]
          \<and> mix r ''B'' = None
          \<and> objective_value r = 8100))"
proof (intro conjI impI)
  show "is_optimum (build_problem [a, b] no_limits) v \<longleftrightarrow> v ''A'' = 0.5 \<and> v ''B'' = 0"
    using assms by (rule two_material_optimum)
next
  let ?sol = "solve (build_problem [a, b] no_limits)"
  assume h: "is_optimum (build_problem [a, b] no_limits) v
        \<and> var_value ?sol ''A'' = Some (v ''A'')
        \<and> var_value ?sol ''B'' = Some (v ''B'')
        \<and> sol_status ?sol = Optimal"
  then have v: "v ''A'' = 0.5" "v ''B'' = 0"
    using two_material_optimum [OF assms, of v] by simp_all
  from h assms(1,2) have pt: "\<forall>w \<in> set [a, b]. var_value ?sol (name' w) = Some (v (name' w))"
    by simp
  have m: "mix_of (var_value ?sol) (map name' [a, b]) = [''Petcoke (Base)'' \<mapsto> 50, ''A'' \<mapsto> 50]"
    using h v assms(1,2)
    by (simp add: mix_of_def add_pct_def pct_of_def py_round_def)
  have ob: "py_round (blend_property petcoke_pci pci v [a, b]) 2 = 8100"
    by (simp add: blend_property_def petcoke_pci_def py_round_def v assms)
  have nz: "\<not> (\<forall>w \<in> set [a, b]. pci w = 0)"
    using assms(5) by simp
  from solve_optimal_mix_of_point [where solve = solve and wd = "[a, b]" and cs = no_limits
      and v = v, OF pt] h m ob nz
  show "\<exists>r. solve_optimal_mix solve [a, b] no_limits = Inr r
          \<and> status r = ''Optimal''
          \<and> mix r = [''Petcoke (Base)'' \<mapsto> 50, ''A'' \<mapsto> 50]
          \<and> mix r ''B'' = None
          \<and> objective_value r = 8100"
    by simp
qed

text \<open>The two materials with a stock of a million tons each.\<close>

theorem highest_calorific_material_takes_waste_share_witness:
  "is_optimum (build_problem [material_A, material_B] no_limits) all_A
   \<and> (\<exists>r. solve_optimal_mix (pulp_solution Optimal [(''A'', 0.5), (''B'', 0)])
             [material_A, material_B] no_limits = Inr r
        \<and> status r = ''Optimal''
        \<and> mix r = [''Petcoke (Base)'' \<mapsto> 50, ''A'' \<mapsto> 50]
        \<and> mix r ''B'' = None
        \<and> objective_value r = 8100)"
proof -
  let ?solve = "pulp_solution Optimal [(''A'', 0.5), (''B'', 0)]"
  have h: "name' material_A = ''A''" "name' material_B = ''B''"
    "0 < get_stock material_A" "0 < get_stock material_B"
    "pci material_A = 8000" "pci material_B = 4000"
    by (simp_all add: material_A_def material_B_def get_stock_def)
  have g: "all_A ''A'' = 0.5 \<and> all_A ''B'' = 0"
    "var_value (?solve (build_problem [material_A, material_B] no_limits)) ''A'' = Some (all_A ''A'')"
    "var_value (?solve (build_problem [material_A, material_B] no_limits)) ''B'' = Some (all_A ''B'')"
    "sol_status (?solve (build_problem [material_A, material_B] no_limits)) = Optimal"
    by (simp_all add: all_A_def pulp_solution_def)
  from highest_calorific_material_takes_waste_share [OF h, where v = all_A and solve = ?solve] g
  show ?thesis by blast
qed

section \<open>The empty material list\<close>

lemma empty_protocol_infeasible: "\<not> feasible (build_problem [] cs) v"
  by (simp add: feasible_def constraints_build_problem holds_mass_balance)

lemma solve_optimal_mix_empty:
  "solve_optimal_mix solve [] cs =
     Inr \<lparr> status = LpStatus (sol_status (solve (build_problem [] cs))),
           mix = [''Petcoke (Base)'' \<mapsto> 50], objective_value = 0,
           details = \<lparr> final_chlorine = 0.00025, final_humidity = 0.005, final_sulfur = 0.02,
                       protocol = ''50/50 Nexus'' \<rparr> \<rparr>"
proof -
  have "\<forall>w \<in> set []. var_value (solve (build_problem [] cs)) (name' w) = Some (0 :: real)"
    by simp
  from solve_optimal_mix_of_point [where solve = solve and wd = "[]" and cs = cs
      and v = "\<lambda>n. 0", OF this]
  show ?thesis
    by (simp add: mix_of_def blend_property_def py_round_def
        petcoke_chlorine_def petcoke_humidity_def petcoke_sulfur_def)
qed

text \<open>
  C9, as the code has it. For the empty material list no status says that there are no
  materials, and the two formulations behave differently. The protocol formulation
  returns normally: it builds the mass balance \<open>0 = 0.5\<close>, which no point satisfies, and
  reports the solver's status name as it is, one of the five names any request can get,
  with the mix holding only the fixed base. The free formulation returns no result: the
  solver library rejects the empty cost vector with \<open>ValueError\<close> before it solves
  anything, and \<open>calculate_optimal_mix\<close> does not catch the exception.
\<close>

theorem empty_material_list_result:
  "\<not> feasible (build_problem [] cs) v
   \<and> solve_optimal_mix solve [] cs =
       Inr \<lparr> status = LpStatus (sol_status (solve (build_problem [] cs))),
             mix = [''Petcoke (Base)'' \<mapsto> 50], objective_value = 0,
             details = \<lparr> final_chlorine = 0.00025, final_humidity = 0.005, final_sulfur = 0.02,
                         protocol = ''50/50 Nexus'' \<rparr> \<rparr>
   \<and> LpStatus (sol_status (solve (build_problem [] cs)))
        \<in> {''Not Solved'', ''Optimal'', ''Infeasible'', ''Unbounded'', ''Undefined''}
   \<and> calculate_optimal_mix linprog [] p = Inl invalid_c"
proof (intro conjI)
  show "\<not> feasible (build_problem [] cs) v" by (rule empty_protocol_infeasible)
  show "solve_optimal_mix solve [] cs =
       Inr \<lparr> status = LpStatus (sol_status (solve (build_problem [] cs))),
             mix = [''Petcoke (Base)'' \<mapsto> 50], objective_value = 0,
             details = \<lparr> final_chlorine = 0.00025, final_humidity = 0.005, final_sulfur = 0.02,
                         protocol = ''50/50 Nexus'' \<rparr> \<rparr>"
    by (rule solve_optimal_mix_empty)
  show "LpStatus (sol_status (solve (build_problem [] cs)))
        \<in> {''Not Solved'', ''Optimal'', ''Infeasible'', ''Unbounded'', ''Undefined''}"
    by (cases "sol_status (solve (build_problem [] cs))") simp_all
  show "calculate_optimal_mix linprog [] p = Inl invalid_c"
    by (rule calculate_optimal_mix_empty)
qed

text \<open>
  C9 as stated fails. In the free formulation the call for the empty list raises, whatever
  the solver would answer. In the protocol formulation the empty list and the sample data
  with an unreachable minimum calorific value get the same status, \<open>Infeasible\<close>, when
  the solver reports both problems as infeasible, which they are.
\<close>

theorem empty_list_status_not_distinguished:
  "calculate_optimal_mix (linprog_success []) [] sample_params = Inl invalid_c
   \<and> calculate_optimal_mix (linprog_failure 2 ''The problem is infeasible.'') [] sample_params
       = Inl invalid_c
   \<and> solve_optimal_mix (pulp_solution Infeasible []) [] no_limits = Inr empty_list_result
   \<and> solve_optimal_mix (pulp_solution Infeasible all_zero) sample_waste_data unreachable_pci
       = Inr infeasible_result
   \<and> status empty_list_result = status infeasible_result"
proof -
  have a: "solve_optimal_mix (pulp_solution Infeasible []) [] no_limits = Inr empty_list_result"
    by (simp add: solve_optimal_mix_empty empty_list_result_def pulp_solution_def)
  note b = unreachable_pci_result
  have c: "status empty_list_result = status infeasible_result"
    by (simp add: empty_list_result_def infeasible_result_def)
  from a b c show ?thesis
    by (simp add: calculate_optimal_mix_empty)
qed

text \<open>The empty list with the sample parameters and constraints.\<close>

theorem empty_material_list_result_witness:
  "solve_optimal_mix (pulp_solution Infeasible []) [] sample_constraints = Inr empty_list_result
   \<and> calculate_optimal_mix (linprog_success []) [] sample_params = Inl invalid_c"
proof -
  have s: "sol_status (pulp_solution Infeasible [] (build_problem [] sample_constraints)) = Infeasible"
    by (simp add: pulp_solution_def)
  from s empty_material_list_result [where solve = "pulp_solution Infeasible []"
      and cs = sample_constraints and p = sample_params and linprog = "linprog_success []"]
  show ?thesis
    by (simp add: empty_list_result_def)
qed

section \<open>Fields the free formulation does not read\<close>

lemma add_stream_cong:
  "w' = w\<lparr>humidity := h, density := d\<rparr> \<Longrightarrow> add_stream w' val t = add_stream w val t"
  by (simp add: add_stream_def)

lemma accumulate_ignores_humidity_density:
  assumes "list_all2 (\<lambda>w w'. w' = w\<lparr>humidity := humidity w', density := density w'\<rparr>) ws ws'"
  shows "accumulate ws' xs t = accumulate ws xs t"
  using assms
proof (induction ws ws' arbitrary: xs t rule: list_all2_induct)
  case Nil
  then show ?case by simp
next
  case (Cons w ws w' ws')
  show ?case
  proof (cases xs)
    case Nil
    then show ?thesis by simp
  next
    case (Cons val vals)
    with Cons.IH Cons.hyps(1) show ?thesis
      by (simp add: add_stream_cong [OF Cons.hyps(1)])
  qed
qed

lemma map_ignores_humidity_density:
  assumes "list_all2 (\<lambda>w w'. w' = w\<lparr>humidity := humidity w', density := density w'\<rparr>) ws ws'"
    and f: "\<And>w h d. f (w\<lparr>humidity := h, density := d\<rparr>) = f w"
  shows "map f ws' = map f ws"
  using assms(1)
proof (induction ws ws' rule: list_all2_induct)
  case Nil
  then show ?case by simp
next
  case (Cons w ws w' ws')
  have "f w' = f w" by (subst Cons.hyps(1)) (rule f)
  with Cons.IH show ?case by simp
qed

lemma build_lp_ignores_humidity_density:
  assumes "list_all2 (\<lambda>w w'. w' = w\<lparr>humidity := humidity w', density := density w'\<rparr>) ws ws'"
  shows "build_lp ws' p = build_lp ws p"
proof -
  note m = map_ignores_humidity_density [OF assms]
  have "length ws' = length ws"
    using assms by (simp add: list_all2_lengthD)
  moreover have "map (\<lambda>w. cost w - 100000) ws' = map (\<lambda>w. cost w - 100000) ws"
    "map (\<lambda>w. sulfur_content w - max_sulfur p) ws' = map (\<lambda>w. sulfur_content w - max_sulfur p) ws"
    "map (\<lambda>w. chloride_content w - max_chloride p) ws'
       = map (\<lambda>w. chloride_content w - max_chloride p) ws"
    "map (\<lambda>w. - (pci_value w - 0.95 * target_pci p)) ws'
       = map (\<lambda>w. - (pci_value w - 0.95 * target_pci p)) ws"
    "map (\<lambda>w. pci_value w - 1.05 * target_pci p) ws' = map (\<lambda>w. pci_value w - 1.05 * target_pci p) ws"
    "map (\<lambda>w. (0 :: real, available_mass w)) ws' = map (\<lambda>w. (0, available_mass w)) ws"
    by (rule m, simp)+
  ultimately show ?thesis
    unfolding build_lp_def by simp
qed

text \<open>
  C10. The free-allocation formulation does not read the humidity and the density of
  the streams: two lists that differ at most in these two fields give the same problem
  (so no humidity row exists) and, with the same solver, the same result.
\<close>

theorem result_independent_of_humidity_and_density:
  assumes "list_all2 (\<lambda>w w'. w' = w\<lparr>humidity := humidity w', density := density w'\<rparr>) ws ws'"
  shows "build_lp ws' p = build_lp ws p
       \<and> calculate_optimal_mix linprog ws' p = calculate_optimal_mix linprog ws p"
proof -
  note b = build_lp_ignores_humidity_density [OF assms, of p]
  note a = accumulate_ignores_humidity_density [OF assms]
  show ?thesis
    unfolding calculate_optimal_mix_def b a by simp
qed

text \<open>The sample streams, and the same streams with humidity 0.9 and density 7 throughout.\<close>

theorem result_independent_of_humidity_and_density_witness:
  "build_lp (map (\<lambda>w. w\<lparr>humidity := 0.9, density := 7\<rparr>) streams) sample_params
     = build_lp streams sample_params
   \<and> calculate_optimal_mix (linprog_success [3, 5, 7, 0])
        (map (\<lambda>w. w\<lparr>humidity := 0.9, density := 7\<rparr>) streams) sample_params
     = calculate_optimal_mix (linprog_success [3, 5, 7, 0]) streams sample_params"
proof -
  have "list_all2 (\<lambda>w w'. w' = w\<lparr>humidity := humidity w', density := density w'\<rparr>) streams
          (map (\<lambda>w. w\<lparr>humidity := 0.9, density := 7\<rparr>) streams)"
    by (simp add: streams_def)
  from result_independent_of_humidity_and_density [OF this] show ?thesis by blast
qed

end
